theory Spec2Isabelle
  imports Complex_Main
begin

section \<open>Data model (core/split/models.py)\<close>

text \<open>
  Python \<open>Decimal\<close> values are modelled as exact rationals. The two places where the
  code path rounds (the division of the default decimal context, and the two-place
  column of a \<open>MoneyField\<close>) are written out as functions further down. Sums and
  differences of stored two-place amounts are taken exactly: the decimal context keeps 28
  significant digits and a column at most 14. Primary keys are natural numbers, a date is
  its ordinal, and the rows of a table are listed in insertion order.
\<close>

type_synonym Decimal = rat
type_synonym pk = nat

datatype ExpenseType = PERSONAL | GROUP

datatype SplitType = EQUAL | EXACT | PERCENTAGE | SHARES

record Group =
  group_pk :: pk
  group_name :: string
  group_description :: string
  group_created_by :: pk
  group_members :: "pk list"
  group_default_currency :: string
  group_is_active :: bool

record Expense =
  expense_pk :: pk
  expense_description :: string
  expense_amount :: Decimal
  expense_currency :: string
  expense_type :: ExpenseType
  expense_user :: pk
  expense_group :: "pk option"
  expense_paid_by :: pk
  expense_category :: pk
  expense_date :: nat
  expense_notes :: string

record ExpenseSplit =
  split_pk :: pk
  split_expense :: pk
  split_user :: pk
  split_split_type :: SplitType
  split_amount :: Decimal
  split_currency :: string
  split_percentage :: "Decimal option"
  split_shares :: "int option"
  split_is_settled :: bool

record Settlement =
  settlement_pk :: pk
  settlement_group :: pk
  settlement_paid_by :: pk
  settlement_paid_to :: pk
  settlement_amount :: Decimal
  settlement_currency :: string
  settlement_date :: nat
  settlement_notes :: string
  settlement_payment_method :: string
  settlement_expense_splits :: "pk list"

text \<open>
  The store: one list of rows per table, and the next primary key each table hands out.
  \<open>users\<close> holds the primary keys of the user table (accounts/models.py); the
  many-to-many tables are the list fields \<open>group_members\<close> and
  \<open>settlement_expense_splits\<close> of their owning rows.
\<close>

record database =
  users :: "pk list"
  groups :: "Group list"
  expenses :: "Expense list"
  expense_splits :: "ExpenseSplit list"
  settlements :: "Settlement list"
  group_seq :: pk
  expense_seq :: pk
  split_seq :: pk
  settlement_seq :: pk

section \<open>Queries and aggregates\<close>

text \<open>
  \<open>aggregate(total=Sum("amount"))["total"]\<close> is \<open>None\<close> over no rows; the views
  continue with \<open>or Decimal("0.00")\<close>, which also replaces a total that is zero.
\<close>

definition aggregate_Sum :: "Decimal list \<Rightarrow> Decimal option" where
  "aggregate_Sum xs = (if xs = [] then None else Some (sum_list xs))"

definition or_zero :: "Decimal option \<Rightarrow> Decimal" where
  "or_zero t = (case t of None \<Rightarrow> 0 | Some v \<Rightarrow> if v = 0 then 0 else v)"

text \<open>The join \<open>expense__group\<close>: the group of the expense a split row points to.\<close>

definition expense_of :: "database \<Rightarrow> pk \<Rightarrow> Expense option" where
  "expense_of db k = find (\<lambda>e. expense_pk e = k) (expenses db)"

definition split_expense_group :: "database \<Rightarrow> ExpenseSplit \<Rightarrow> pk option" where
  "split_expense_group db s =
     (case expense_of db (split_expense s) of None \<Rightarrow> None | Some e \<Rightarrow> expense_group e)"

text \<open>
  \<open>Expense.objects.filter(group=group, paid_by=member, expense_type=GROUP)\<close> summed,
  as both balance views compute it.
\<close>

definition paid_total :: "database \<Rightarrow> Group \<Rightarrow> pk \<Rightarrow> Decimal" where
  "paid_total db grp member =
     or_zero (aggregate_Sum (map expense_amount
       (filter (\<lambda>e. expense_group e = Some (group_pk grp) \<and> expense_paid_by e = member
                     \<and> expense_type e = GROUP) (expenses db))))"

text \<open>\<open>ExpenseSplit.objects.filter(expense__group=group, user=member)\<close> summed (group view).\<close>

definition owed_total :: "database \<Rightarrow> Group \<Rightarrow> pk \<Rightarrow> Decimal" where
  "owed_total db grp member =
     or_zero (aggregate_Sum (map split_amount
       (filter (\<lambda>s. split_expense_group db s = Some (group_pk grp) \<and> split_user s = member)
          (expense_splits db))))"

text \<open>
  \<open>ExpenseSplit.objects.filter(expense__group=group, user=user, is_settled=False)\<close>
  summed (dashboard view).
\<close>

definition owed_total_open :: "database \<Rightarrow> Group \<Rightarrow> pk \<Rightarrow> Decimal" where
  "owed_total_open db grp user =
     or_zero (aggregate_Sum (map split_amount
       (filter (\<lambda>s. split_expense_group db s = Some (group_pk grp) \<and> split_user s = user
                     \<and> \<not> split_is_settled s) (expense_splits db))))"

section \<open>Balance views (core/split/views.py)\<close>

text \<open>
  \<open>Group.objects\<close>: the model's \<open>Meta.ordering = ["-created"]\<close> makes a queryset of groups
  run from the newest row to the oldest, the reverse of the order of insertion.
\<close>

definition Group_objects :: "database \<Rightarrow> Group list" where
  "Group_objects db = rev (groups db)"

text \<open>A Python dict as an association list in insertion order; \<open>d[k] = v\<close> is \<open>dict_set\<close>.\<close>

fun dict_set :: "'k \<Rightarrow> 'v \<Rightarrow> ('k \<times> 'v) list \<Rightarrow> ('k \<times> 'v) list" where
  "dict_set k v [] = [(k, v)]"
| "dict_set k v ((k', v') # d) = (if k = k' then (k, v) # d else (k', v') # dict_set k v d)"

record balance_entry =
  paid :: Decimal
  owed :: Decimal
  balance :: Decimal

text \<open>\<open>GroupDetailView.calculate_group_balances\<close>: one entry per member, over all splits.\<close>

definition calculate_group_balances :: "database \<Rightarrow> Group \<Rightarrow> (pk \<times> balance_entry) list" where
  "calculate_group_balances db grp =
     fold (\<lambda>member balances.
             let paid' = paid_total db grp member;
                 owed' = owed_total db grp member
             in dict_set member \<lparr>paid = paid', owed = owed', balance = paid' - owed'\<rparr> balances)
          (group_members grp) []"

record user_balance =
  ub_group :: Group
  ub_balance :: Decimal
  ub_status :: string

text \<open>
  \<open>DashboardView.calculate_user_balances\<close>: over the active groups the user is a member
  of, with owed restricted to splits that are not settled; zero balances are left out.
\<close>

fun user_balances_loop :: "database \<Rightarrow> pk \<Rightarrow> Group list \<Rightarrow> user_balance list" where
  "user_balances_loop db user [] = []"
| "user_balances_loop db user (grp # rest) =
     (let paid' = paid_total db grp user;
          owed' = owed_total_open db grp user;
          balance' = paid' - owed'
      in (if balance' \<noteq> 0
          then [\<lparr>ub_group = grp, ub_balance = balance',
                 ub_status = (if balance' > 0 then ''owed'' else ''owes'')\<rparr>]
          else []) @ user_balances_loop db user rest)"

definition calculate_user_balances :: "database \<Rightarrow> pk \<Rightarrow> user_balance list" where
  "calculate_user_balances db user =
     user_balances_loop db user
       (filter (\<lambda>g. user \<in> set (group_members g) \<and> group_is_active g) (Group_objects db))"

section \<open>The balance formulas as the specification words them\<close>

text \<open>
  paid(m) is the sum of the amounts of the GROUP expenses of the group whose payer is m;
  owed(m) is the sum of the amounts of the allocations of the group whose user is m.
  Both are written as sums over the whole table with an indicator, to be compared with
  the filtered aggregates of the views.
\<close>

definition spec_paid :: "database \<Rightarrow> Group \<Rightarrow> pk \<Rightarrow> Decimal" where
  "spec_paid db grp m =
     (\<Sum>e\<leftarrow>expenses db. if expense_type e = GROUP \<and> expense_group e = Some (group_pk grp)
                              \<and> expense_paid_by e = m then expense_amount e else 0)"

definition spec_owed :: "database \<Rightarrow> Group \<Rightarrow> pk \<Rightarrow> Decimal" where
  "spec_owed db grp m =
     (\<Sum>s\<leftarrow>expense_splits db. if split_expense_group db s = Some (group_pk grp)
                              \<and> split_user s = m then split_amount s else 0)"


text \<open>
  The outstanding variant: owed restricted to the allocations that are still open, and the
  balance of a user in a group in that mode.
\<close>

definition spec_owed_open :: "database \<Rightarrow> Group \<Rightarrow> pk \<Rightarrow> Decimal" where
  "spec_owed_open db grp m =
     (\<Sum>s\<leftarrow>expense_splits db. if split_expense_group db s = Some (group_pk grp)
                              \<and> split_user s = m \<and> \<not> split_is_settled s then split_amount s else 0)"

definition outstanding_balance :: "database \<Rightarrow> pk \<Rightarrow> Group \<Rightarrow> Decimal" where
  "outstanding_balance db user grp = spec_paid db grp user - spec_owed_open db grp user"

text \<open>A user with no open allocation in any group, and a user who paid no GROUP expense.\<close>

definition no_open_allocations :: "database \<Rightarrow> pk \<Rightarrow> bool" where
  "no_open_allocations db user =
     list_all (\<lambda>s. split_user s \<noteq> user \<or> split_is_settled s) (expense_splits db)"

definition paid_no_group_expense :: "database \<Rightarrow> pk \<Rightarrow> bool" where
  "paid_no_group_expense db user =
     list_all (\<lambda>e. expense_paid_by e \<noteq> user \<or> expense_type e \<noteq> GROUP) (expenses db)"

section \<open>Reconciliation of a group's ledger\<close>

text \<open>
  \<open>expense.splits\<close> summed: what an expense's allocations add up to. An expense reconciles
  when that sum is within 0.01 of the expense amount.
\<close>

definition allocated :: "database \<Rightarrow> Expense \<Rightarrow> Decimal" where
  "allocated db e =
     sum_list (map split_amount (filter (\<lambda>s. split_expense s = expense_pk e) (expense_splits db)))"

definition reconciles :: "database \<Rightarrow> Expense \<Rightarrow> bool" where
  "reconciles db e = (\<bar>expense_amount e - allocated db e\<bar> \<le> 1 / 100)"

definition group_expenses :: "database \<Rightarrow> Group \<Rightarrow> Expense list" where
  "group_expenses db grp = filter (\<lambda>e. expense_group e = Some (group_pk grp)) (expenses db)"

text \<open>
  What the store and the forms guarantee of a group's rows: members and expense keys are
  unique, an expense with a group is a GROUP expense whose payer is a member
  (\<open>ExpenseForm.clean\<close>), and the user of each of the group's splits is a member.
\<close>

definition ledger_wf :: "database \<Rightarrow> Group \<Rightarrow> bool" where
  "ledger_wf db grp =
     (distinct (group_members grp) \<and> distinct (map expense_pk (expenses db))
      \<and> list_all (\<lambda>e. expense_type e = GROUP \<and> expense_paid_by e \<in> set (group_members grp))
           (group_expenses db grp)
      \<and> list_all (\<lambda>s. split_expense_group db s \<noteq> Some (group_pk grp)
                       \<or> split_user s \<in> set (group_members grp)) (expense_splits db))"

definition all_reconcile :: "database \<Rightarrow> Group \<Rightarrow> bool" where
  "all_reconcile db grp = list_all (reconciles db) (group_expenses db grp)"

text \<open>The sum of the balances of a result of \<open>calculate_group_balances\<close>.\<close>

definition total_balance :: "(pk \<times> balance_entry) list \<Rightarrow> Decimal" where
  "total_balance balances = sum_list (map (\<lambda>(member, entry). balance entry) balances)"

section \<open>Decimal arithmetic\<close>

text \<open>
  The exceptions of the modelled code: a \<open>ValidationError\<close> raised with a message, one
  raised with a dict that names a field, the two signals the decimal context traps on a
  zero divisor, the 404 of \<open>get_object_or_404\<close>, the store's refusal of a row, and the
  \<open>ValueError\<close> of saving a model form that has errors.
\<close>

datatype error =
    ValidationError string
  | FieldValidationError string string
  | DivisionByZero
  | InvalidOperation
  | Http404
  | IntegrityError
  | ValueError

text \<open>The field an error is keyed to, if any.\<close>

definition error_field :: "error \<Rightarrow> string option" where
  "error_field err = (case err of FieldValidationError field msg \<Rightarrow> Some field | _ \<Rightarrow> None)"

text \<open>Rounding to the nearest integer, ties to even (\<open>ROUND_HALF_EVEN\<close>).\<close>

definition round_half_even :: "rat \<Rightarrow> int" where
  "round_half_even x =
     (let f = \<lfloor>x\<rfloor>; d = x - of_int f
      in if d < 1 / 2 then f else if 1 / 2 < d then f + 1 else if even f then f else f + 1)"

definition pow10 :: "int \<Rightarrow> rat" where
  "pow10 e = (if 0 \<le> e then 10 ^ nat e else 1 / 10 ^ nat (- e))"

text \<open>The number of decimal digits of a natural number.\<close>

fun ndigits :: "nat \<Rightarrow> nat" where
  "ndigits n = (if n < 10 then 1 else Suc (ndigits (n div 10)))"

declare ndigits.simps [simp del]

text \<open>
  The exponent of the leading digit of a non-zero value: \<open>adjusted x = e\<close> when
  \<open>10 ^ e \<le> \<bar>x\<bar> < 10 ^ (e + 1)\<close>.
\<close>

definition adjusted :: "rat \<Rightarrow> int" where
  "adjusted x =
     (if 1 \<le> \<bar>x\<bar> then int (ndigits (nat \<lfloor>\<bar>x\<bar>\<rfloor>)) - 1
      else - int (ndigits (nat \<lceil>1 / \<bar>x\<bar>\<rceil> - 1)))"

text \<open>
  The default decimal context: a result is rounded to 28 significant digits, ties to
  even.
\<close>

definition context_round :: "rat \<Rightarrow> Decimal" where
  "context_round x =
     (if x = 0 then 0
      else let e = adjusted x - 27 in of_int (round_half_even (x / pow10 e)) * pow10 e)"

text \<open>\<open>a / b\<close> on Decimals.\<close>

definition decimal_div :: "Decimal \<Rightarrow> Decimal \<Rightarrow> error + Decimal" where
  "decimal_div a b =
     (if b = 0 then (if a = 0 then Inl InvalidOperation else Inl DivisionByZero)
      else Inr (context_round (a / b)))"

text \<open>
  What a \<open>MoneyField(max_digits=14, decimal_places=2)\<close> column keeps of a value written to
  it: the value quantized to two places, ties to even (the rounding of the decimal context
  with which Django formats a Decimal for the store).
\<close>

definition quantize_2 :: "Decimal \<Rightarrow> Decimal" where
  "quantize_2 x = of_int (round_half_even (x * 100)) / 100"

section \<open>SimpleSplitForm (core/split/forms.py)\<close>

text \<open>
  The submitted data of the form, and the form instance with the \<open>group\<close> and \<open>expense\<close>
  it was constructed with. Field errors are pairs of the field's name and the error code.
\<close>

record split_post =
  post_split_type :: "string option"
  post_members :: "pk list"

record SimpleSplitForm =
  ssf_data :: split_post
  ssf_group :: "Group option"
  ssf_expense :: "Expense option"

record split_cleaned_data =
  cd_split_type :: SplitType
  cd_members :: "pk list"

type_synonym field_errors = "(string \<times> string) list"

text \<open>\<open>ExpenseSplit.SplitType.choices\<close>: the stored values of the four policies.\<close>

definition SplitType_of_value :: "string \<Rightarrow> SplitType option" where
  "SplitType_of_value v =
     (if v = ''equal'' then Some EQUAL
      else if v = ''exact'' then Some EXACT
      else if v = ''percentage'' then Some PERCENTAGE
      else if v = ''shares'' then Some SHARES
      else None)"

text \<open>
  The \<open>split_type\<close> choice field (required): a missing or empty value and a value that is
  not a choice are errors.
\<close>

definition clean_split_type :: "string option \<Rightarrow> field_errors + SplitType" where
  "clean_split_type v =
     (case v of
        None \<Rightarrow> Inl [(''split_type'', ''required'')]
      | Some s \<Rightarrow>
          if s = [] then Inl [(''split_type'', ''required'')]
          else (case SplitType_of_value s of
                  None \<Rightarrow> Inl [(''split_type'', ''invalid_choice'')]
                | Some t \<Rightarrow> Inr t))"

text \<open>
  The \<open>members\<close> multiple-choice field (required) over the queryset set by \<open>__init__\<close>:
  the members of the group, or no user at all without a group. The cleaned value is the
  queryset filtered to the submitted keys.
\<close>

definition members_queryset :: "Group option \<Rightarrow> pk list" where
  "members_queryset g = (case g of None \<Rightarrow> [] | Some grp \<Rightarrow> group_members grp)"

definition clean_members :: "pk list \<Rightarrow> pk list \<Rightarrow> field_errors + pk list" where
  "clean_members queryset vs =
     (if vs = [] then Inl [(''members'', ''required'')]
      else if list_ex (\<lambda>v. v \<notin> set queryset) vs then Inl [(''members'', ''invalid_choice'')]
      else Inr (filter (\<lambda>u. u \<in> set vs) queryset))"

text \<open>\<open>is_valid()\<close>: every field is cleaned; the form is valid when no field has an error.\<close>

definition SimpleSplitForm_full_clean :: "SimpleSplitForm \<Rightarrow> field_errors + split_cleaned_data" where
  "SimpleSplitForm_full_clean form =
     (case (clean_split_type (post_split_type (ssf_data form)),
            clean_members (members_queryset (ssf_group form)) (post_members (ssf_data form))) of
        (Inr t, Inr ms) \<Rightarrow> Inr \<lparr>cd_split_type = t, cd_members = ms\<rparr>
      | (Inl e1, Inr ms) \<Rightarrow> Inl e1
      | (Inr t, Inl e2) \<Rightarrow> Inl e2
      | (Inl e1, Inl e2) \<Rightarrow> Inl (e1 @ e2))"

text \<open>
  \<open>self.expense.splits.all().delete()\<close>: the expense's split rows go, and with them the
  rows of the settlements' many-to-many table that point to them.
\<close>

definition delete_splits :: "database \<Rightarrow> Expense \<Rightarrow> database" where
  "delete_splits db e =
     (let gone = map split_pk (filter (\<lambda>s. split_expense s = expense_pk e) (expense_splits db))
      in db\<lparr>expense_splits := filter (\<lambda>s. split_expense s \<noteq> expense_pk e) (expense_splits db),
             settlements := map (\<lambda>st. st\<lparr>settlement_expense_splits :=
                                   filter (\<lambda>k. k \<notin> set gone) (settlement_expense_splits st)\<rparr>)
                               (settlements db)\<rparr>)"

text \<open>
  \<open>ExpenseSplit.objects.create(expense=..., user=member, split_type=..., amount=Money(...))\<close>:
  the object as constructed is returned; the row keeps the amount at two places.
\<close>

definition create_split :: "database \<Rightarrow> Expense \<Rightarrow> pk \<Rightarrow> SplitType \<Rightarrow> Decimal
                               \<Rightarrow> ExpenseSplit \<times> database" where
  "create_split db e member t amount =
     (let obj = \<lparr>split_pk = split_seq db, split_expense = expense_pk e, split_user = member,
                 split_split_type = t, split_amount = amount, split_currency = expense_currency e,
                 split_percentage = None, split_shares = None, split_is_settled = False\<rparr>
      in (obj, db\<lparr>expense_splits := expense_splits db @ [obj\<lparr>split_amount := quantize_2 amount\<rparr>],
                    split_seq := Suc (split_seq db)\<rparr>))"

text \<open>The loop \<open>for member in members\<close> of \<open>save\<close>, appending each created object.\<close>

fun create_splits :: "database \<Rightarrow> Expense \<Rightarrow> SplitType \<Rightarrow> Decimal \<Rightarrow> pk list
                        \<Rightarrow> ExpenseSplit list \<Rightarrow> ExpenseSplit list \<times> database" where
  "create_splits db e t per_person [] splits = (splits, db)"
| "create_splits db e t per_person (member # rest) splits =
     (let (split, db') = create_split db e member t per_person
      in create_splits db' e t per_person rest (splits @ [split]))"

text \<open>
  \<open>SimpleSplitForm.save\<close>. The result is the returned list of split objects, or the
  exception raised, together with the store as the call leaves it.
\<close>

definition SimpleSplitForm_save :: "database \<Rightarrow> Expense option \<Rightarrow> split_cleaned_data
                                      \<Rightarrow> (error + ExpenseSplit list) \<times> database" where
  "SimpleSplitForm_save db expense cleaned_data =
     (case expense of
        None \<Rightarrow> (Inr [], db)
      | Some e \<Rightarrow>
          let split_type = cd_split_type cleaned_data;
              members = cd_members cleaned_data;
              db1 = delete_splits db e;
              expense_amount' = expense_amount e;
              num_members = length members
          in if split_type = EQUAL
             then (case decimal_div expense_amount' (of_nat num_members) of
                     Inl err \<Rightarrow> (Inl err, db1)
                   | Inr per_person \<Rightarrow>
                       (let (splits, db2) = create_splits db1 e split_type per_person members []
                        in (Inr splits, db2)))
             else (Inr [], db1))"

text \<open>
  The allocation step of \<open>ExpenseCreateView.form_valid\<close>: the split form is constructed
  from the submitted data with the expense and its group, and saved when it is valid.
\<close>

definition allocate :: "database \<Rightarrow> Group option \<Rightarrow> Expense \<Rightarrow> split_post
                          \<Rightarrow> (field_errors + (error + ExpenseSplit list)) \<times> database" where
  "allocate db grp e post =
     (let split_form = \<lparr>ssf_data = post, ssf_group = grp, ssf_expense = Some e\<rparr>
      in case SimpleSplitForm_full_clean split_form of
           Inl errs \<Rightarrow> (Inl errs, db)
         | Inr cleaned_data \<Rightarrow>
             (let (r, db') = SimpleSplitForm_save db (ssf_expense split_form) cleaned_data
              in (Inr r, db')))"

text \<open>
  The rows of an equal split, written out: one row per member, in order, each with the same
  amount and consecutive primary keys from \<open>k\<close>.
\<close>

fun equal_rows :: "pk \<Rightarrow> Expense \<Rightarrow> SplitType \<Rightarrow> Decimal \<Rightarrow> pk list \<Rightarrow> ExpenseSplit list" where
  "equal_rows k e t amount [] = []"
| "equal_rows k e t amount (member # rest) =
     \<lparr>split_pk = k, split_expense = expense_pk e, split_user = member, split_split_type = t,
      split_amount = amount, split_currency = expense_currency e, split_percentage = None,
      split_shares = None, split_is_settled = False\<rparr> # equal_rows (Suc k) e t amount rest"

text \<open>
  A stored expense amount: two decimal places, at least 0.01, at most fourteen digits
  (\<open>max_digits=14, decimal_places=2, MinValueValidator(Decimal("0.01"))\<close>).
\<close>

definition money_amount :: "Decimal \<Rightarrow> bool" where
  "money_amount a = (a * 100 = of_int \<lfloor>a * 100\<rfloor> \<and> 1 / 100 \<le> a \<and> a < 10 ^ 12)"

text \<open>The amount in hundredths.\<close>

definition hundredths :: "Decimal \<Rightarrow> int" where
  "hundredths a = \<lfloor>a * 100\<rfloor>"

text \<open>
  The amount each row of an equal split among \<open>n\<close> members holds: the quotient of the
  decimal context, kept at two places by the column.
\<close>

definition equal_share :: "Expense \<Rightarrow> nat \<Rightarrow> Decimal" where
  "equal_share e n = quantize_2 (context_round (expense_amount e / of_nat n))"

section \<open>ExpenseCreateView.form_valid (core/split/views.py)\<close>



section \<open>SettlementForm and SettlementCreateView\<close>

text \<open>
  What a view does with a submitted form: an exception escapes, the form is not valid and
  is shown again with its errors, or the object is saved.
\<close>

datatype 'a outcome = Raised error | FormInvalid field_errors | Saved 'a

text \<open>
  The submitted data. The form's \<open>Meta.fields\<close> are \<open>paid_by\<close>, \<open>paid_to\<close>, \<open>amount\<close>,
  \<open>settlement_date\<close>, \<open>payment_method\<close> and \<open>notes\<close>; \<open>sp_expense_splits\<close> stands for
  allocation keys a request may carry, for which the form has no field.
\<close>

record settlement_post =
  sp_paid_by :: "pk option"
  sp_paid_to :: "pk option"
  sp_amount :: "Decimal option"
  sp_settlement_date :: "nat option"
  sp_payment_method :: string
  sp_notes :: string
  sp_expense_splits :: "pk list"

record SettlementForm =
  sf_data :: settlement_post
  sf_group :: "Group option"
  sf_user :: "pk option"

text \<open>
  \<open>__init__\<close> narrows the two user fields to the members of the group when the form has a
  group; otherwise they range over all users.
\<close>

definition SettlementForm_queryset :: "database \<Rightarrow> SettlementForm \<Rightarrow> pk list" where
  "SettlementForm_queryset db form =
     (case sf_group form of None \<Rightarrow> users db | Some grp \<Rightarrow> group_members grp)"

text \<open>A required foreign-key choice field.\<close>

definition clean_choice :: "string \<Rightarrow> pk list \<Rightarrow> pk option \<Rightarrow> field_errors" where
  "clean_choice field queryset v =
     (case v of
        None \<Rightarrow> [(field, ''required'')]
      | Some u \<Rightarrow> if u \<in> set queryset then [] else [(field, ''invalid_choice'')])"

text \<open>
  The amount: required, at most two decimal places and fourteen digits, and at least 0.01
  (\<open>MinValueValidator(Decimal("0.01"))\<close> of the model field).
\<close>

definition clean_amount :: "Decimal option \<Rightarrow> field_errors" where
  "clean_amount v =
     (case v of
        None \<Rightarrow> [(''amount'', ''required'')]
      | Some a \<Rightarrow>
          if a * 100 \<noteq> of_int \<lfloor>a * 100\<rfloor> then [(''amount'', ''max_decimal_places'')]
          else if 10 ^ 12 \<le> \<bar>a\<bar> then [(''amount'', ''max_digits'')]
          else if a < 1 / 100 then [(''amount'', ''min_value'')]
          else [])"

text \<open>\<open>SettlementForm.clean\<close>, on the values of the two fields that passed their own cleaning.\<close>

definition SettlementForm_clean :: "pk option \<Rightarrow> pk option \<Rightarrow> error + unit" where
  "SettlementForm_clean paid_by paid_to =
     (case (paid_by, paid_to) of
        (Some a, Some b) \<Rightarrow>
          if a = b then Inl (ValidationError ''You cannot settle with yourself.'') else Inr ()
      | _ \<Rightarrow> Inr ())"

text \<open>
  All errors of the form: those of the fields, then what \<open>clean\<close> raises (kept under the
  key \<open>__all__\<close>). \<open>cleaned_data.get\<close> yields \<open>None\<close> for a field that failed.
\<close>

definition SettlementForm_errors :: "database \<Rightarrow> SettlementForm \<Rightarrow> field_errors" where
  "SettlementForm_errors db form =
     (let d = sf_data form;
          qs = SettlementForm_queryset db form;
          e_by = clean_choice ''paid_by'' qs (sp_paid_by d);
          e_to = clean_choice ''paid_to'' qs (sp_paid_to d);
          e_amount = clean_amount (sp_amount d);
          e_date = (case sp_settlement_date d of None \<Rightarrow> [(''settlement_date'', ''required'')]
                    | Some _ \<Rightarrow> []);
          e_method = (if 50 < length (sp_payment_method d)
                      then [(''payment_method'', ''max_length'')] else []);
          paid_by = (if e_by = [] then sp_paid_by d else None);
          paid_to = (if e_to = [] then sp_paid_to d else None)
      in e_by @ e_to @ e_amount @ e_date @ e_method
         @ (case SettlementForm_clean paid_by paid_to of
              Inl (ValidationError msg) \<Rightarrow> [(''__all__'', msg)]
            | _ \<Rightarrow> []))"

definition SettlementForm_is_valid :: "database \<Rightarrow> SettlementForm \<Rightarrow> bool" where
  "SettlementForm_is_valid db form = (SettlementForm_errors db form = [])"

text \<open>
  \<open>SettlementForm.save\<close>: a form with errors cannot be saved. Otherwise the instance is built
  from the form's fields, gets the form's group, and is saved. Nothing is written to the
  many-to-many relation \<open>expense_splits\<close> and no split row is touched. Without a group the
  row is refused.
\<close>

definition SettlementForm_save :: "database \<Rightarrow> SettlementForm \<Rightarrow> Settlement outcome \<times> database" where
  "SettlementForm_save db form =
     (let d = sf_data form
      in if SettlementForm_errors db form \<noteq> [] then (Raised ValueError, db)
         else (case (sp_paid_by d, sp_paid_to d, sp_amount d, sp_settlement_date d) of
                 (Some paid_by, Some paid_to, Some amount, Some date) \<Rightarrow>
                   (case sf_group form of
                      None \<Rightarrow> (Raised IntegrityError, db)
                    | Some grp \<Rightarrow>
                        (let instance =
                               \<lparr>settlement_pk = settlement_seq db, settlement_group = group_pk grp,
                                settlement_paid_by = paid_by, settlement_paid_to = paid_to,
                                settlement_amount = amount, settlement_currency = ''INR'',
                                settlement_date = date, settlement_notes = sp_notes d,
                                settlement_payment_method = sp_payment_method d,
                                settlement_expense_splits = []\<rparr>
                         in (Saved instance,
                             db\<lparr>settlements := settlements db @ [instance],
                                settlement_seq := Suc (settlement_seq db)\<rparr>)))
               | _ \<Rightarrow> (Raised ValueError, db)))"

text \<open>
  \<open>SettlementCreateView\<close> on a POST to \<open>groups/<group_pk>/settle/\<close>: the group is fetched
  with \<open>get_object_or_404(Group, pk=group_pk, members=request.user)\<close>, the form is bound
  and, when valid, saved.
\<close>

definition SettlementCreateView_post :: "database \<Rightarrow> pk \<Rightarrow> pk \<Rightarrow> settlement_post
                                           \<Rightarrow> Settlement outcome \<times> database" where
  "SettlementCreateView_post db request_user group_pk' post =
     (case find (\<lambda>g. group_pk g = group_pk' \<and> request_user \<in> set (group_members g)) (groups db) of
        None \<Rightarrow> (Raised Http404, db)
      | Some grp \<Rightarrow>
          (let form = \<lparr>sf_data = post, sf_group = Some grp, sf_user = Some request_user\<rparr>
           in if SettlementForm_is_valid db form then SettlementForm_save db form
              else (FormInvalid (SettlementForm_errors db form), db)))"



section \<open>ExpenseSplitFormSet (core/split/forms.py)\<close>

text \<open>
  Rendering of a two-place Decimal by \<open>str\<close>, as the error messages interpolate it: the
  totals start from \<open>Decimal("0.00")\<close> and the cleaned values have at most two places, so
  exactly two places are printed.
\<close>

definition digit_char :: "nat \<Rightarrow> char" where
  "digit_char d = ''0123456789'' ! (d mod 10)"

fun str_nat :: "nat \<Rightarrow> string" where
  "str_nat n = (if n < 10 then [digit_char n] else str_nat (n div 10) @ [digit_char (n mod 10)])"

declare str_nat.simps [simp del]

definition str_decimal_2 :: "Decimal \<Rightarrow> string" where
  "str_decimal_2 x =
     (let h = nat \<lfloor>\<bar>x\<bar> * 100\<rfloor>
      in (if x < 0 then ''-'' else []) @ str_nat (h div 100) @ ''.''
         @ [digit_char (h div 10), digit_char h])"

text \<open>The rupee sign of the message for exact amounts, as its three bytes.\<close>

definition rupee :: string where
  "rupee = [CHR 0xE2, CHR 0x82, CHR 0xB9]"

text \<open>
  One form of the formset after its own validation: its errors, and its cleaned data (no
  cleaned data for a form left empty).
\<close>

record split_form_cleaned =
  fc_user :: "pk option"
  fc_amount :: "Decimal option"
  fc_percentage :: "Decimal option"
  fc_shares :: "int option"
  fc_DELETE :: bool

record split_form =
  form_errors :: field_errors
  form_cleaned_data :: "split_form_cleaned option"

record ExpenseSplitFormSet =
  fs_forms :: "split_form list"
  fs_expense :: "Expense option"
  fs_split_type :: SplitType

text \<open>
  The loop of \<open>clean\<close> over the forms, with the running totals and the users seen. Sums of
  two-place values are exact in the decimal context at the sizes the fields admit, and
  are written as sums of rationals.
\<close>

fun clean_loop :: "SplitType \<Rightarrow> split_form list \<Rightarrow> Decimal \<times> Decimal \<times> int \<times> pk option list
                     \<Rightarrow> error + Decimal \<times> Decimal \<times> int \<times> pk option list" where
  "clean_loop t [] acc = Inr acc"
| "clean_loop t (form # rest) (total_amount, total_percentage, total_shares, users') =
     (case form_cleaned_data form of
        None \<Rightarrow> clean_loop t rest (total_amount, total_percentage, total_shares, users')
      | Some cd \<Rightarrow>
          if fc_DELETE cd
          then clean_loop t rest (total_amount, total_percentage, total_shares, users')
          else if fc_user cd \<in> set users'
          then Inl (ValidationError ''Each user can only be added once.'')
          else if t = EXACT
          then (case fc_amount cd of
                  Some amount \<Rightarrow>
                    if amount \<noteq> 0
                    then clean_loop t rest (total_amount + amount, total_percentage, total_shares,
                                            users' @ [fc_user cd])
                    else clean_loop t rest (total_amount, total_percentage, total_shares,
                                            users' @ [fc_user cd])
                | None \<Rightarrow> clean_loop t rest (total_amount, total_percentage, total_shares,
                                               users' @ [fc_user cd]))
          else if t = PERCENTAGE
          then (case fc_percentage cd of
                  Some percentage \<Rightarrow>
                    if percentage \<noteq> 0
                    then clean_loop t rest (total_amount, total_percentage + percentage, total_shares,
                                            users' @ [fc_user cd])
                    else clean_loop t rest (total_amount, total_percentage, total_shares,
                                            users' @ [fc_user cd])
                | None \<Rightarrow> clean_loop t rest (total_amount, total_percentage, total_shares,
                                               users' @ [fc_user cd]))
          else if t = SHARES
          then (case fc_shares cd of
                  Some shares \<Rightarrow>
                    if shares \<noteq> 0
                    then clean_loop t rest (total_amount, total_percentage, total_shares + shares,
                                            users' @ [fc_user cd])
                    else clean_loop t rest (total_amount, total_percentage, total_shares,
                                            users' @ [fc_user cd])
                | None \<Rightarrow> clean_loop t rest (total_amount, total_percentage, total_shares,
                                               users' @ [fc_user cd]))
          else clean_loop t rest (total_amount, total_percentage, total_shares,
                                  users' @ [fc_user cd]))"

text \<open>
  \<open>self.errors\<close> of the formset: the errors of its forms, those of a form marked for
  deletion left out.
\<close>

definition should_delete_form :: "split_form \<Rightarrow> bool" where
  "should_delete_form f = (case form_cleaned_data f of None \<Rightarrow> False | Some cd \<Rightarrow> fc_DELETE cd)"

definition formset_errors :: "ExpenseSplitFormSet \<Rightarrow> field_errors list" where
  "formset_errors fs = map form_errors (filter (\<lambda>f. \<not> should_delete_form f) (fs_forms fs))"

text \<open>
  \<open>ExpenseSplitFormSet.clean\<close>: nothing is checked when a form has errors; a repeated user
  is refused; with an expense, the totals of an EXACT and of a PERCENTAGE split are
  checked against the expense amount and against 100.00, each within 0.01.
\<close>

definition ExpenseSplitFormSet_clean :: "ExpenseSplitFormSet \<Rightarrow> error + unit" where
  "ExpenseSplitFormSet_clean fs =
     (if list_ex (\<lambda>errs. errs \<noteq> []) (formset_errors fs) then Inr ()
      else (case clean_loop (fs_split_type fs) (fs_forms fs) (0, 0, 0, []) of
              Inl err \<Rightarrow> Inl err
            | Inr (total_amount, total_percentage, total_shares, users') \<Rightarrow>
                (case fs_expense fs of
                   None \<Rightarrow> Inr ()
                 | Some e \<Rightarrow>
                     let expense_amount' = expense_amount e
                     in if fs_split_type fs = EXACT
                        then (if 1 / 100 < \<bar>total_amount - expense_amount'\<bar>
                              then Inl (ValidationError
                                     (''Split amounts must equal expense amount. Total: '' @ rupee
                                      @ str_decimal_2 total_amount @ '', Expected: '' @ rupee
                                      @ str_decimal_2 expense_amount'))
                              else Inr ())
                        else if fs_split_type fs = PERCENTAGE
                        then (if 1 / 100 < \<bar>total_percentage - 100\<bar>
                              then Inl (ValidationError
                                     (''Percentages must add up to 100%. Current total: ''
                                      @ str_decimal_2 total_percentage @ ''%''))
                              else Inr ())
                        else Inr ())))"

text \<open>
  The participants of a formset (the forms with cleaned data that are not marked for
  deletion) and the sum of their percentages, as the specification words it.
\<close>

definition active_data :: "split_form list \<Rightarrow> split_form_cleaned list" where
  "active_data forms =
     filter (\<lambda>cd. \<not> fc_DELETE cd) (concat (map (\<lambda>f. case form_cleaned_data f of None \<Rightarrow> []
                                                       | Some cd \<Rightarrow> [cd]) forms))"

definition participants :: "ExpenseSplitFormSet \<Rightarrow> split_form_cleaned list" where
  "participants fs = active_data (fs_forms fs)"

definition percentage_sum :: "ExpenseSplitFormSet \<Rightarrow> Decimal" where
  "percentage_sum fs =
     (\<Sum>cd\<leftarrow>participants fs. case fc_percentage cd of None \<Rightarrow> 0 | Some p \<Rightarrow> p)"

definition percentage_request :: "ExpenseSplitFormSet \<Rightarrow> bool" where
  "percentage_request fs =
     (fs_split_type fs = PERCENTAGE \<and> fs_expense fs \<noteq> None
      \<and> list_all (\<lambda>errs. errs = []) (formset_errors fs)
      \<and> distinct (map fc_user (participants fs)))"

section \<open>GroupForm and the group views\<close>

record group_post =
  gp_name :: string
  gp_description :: string
  gp_members :: "pk list"
  gp_default_currency :: string

text \<open>
  The form with the \<open>user\<close> keyword it was constructed with and the instance it edits
  (none when a group is created).
\<close>

record GroupForm =
  gf_data :: group_post
  gf_user :: "pk option"
  gf_instance :: "Group option"

record group_cleaned_data =
  gcd_name :: string
  gcd_description :: string
  gcd_members :: "pk list"
  gcd_default_currency :: string

definition CURRENCY_CHOICES :: "string list" where
  "CURRENCY_CHOICES = [''INR'', ''USD'', ''EUR'', ''GBP'', ''JPY'', ''AUD'', ''CAD'', ''SGD'']"

text \<open>
  \<open>__init__\<close>: with a user, the \<open>members\<close> field ranges over the users other than that
  user; otherwise over all users.
\<close>

definition GroupForm_queryset :: "database \<Rightarrow> GroupForm \<Rightarrow> pk list" where
  "GroupForm_queryset db form =
     (case gf_user form of None \<Rightarrow> users db | Some u \<Rightarrow> filter (\<lambda>v. v \<noteq> u) (users db))"

definition GroupForm_full_clean :: "database \<Rightarrow> GroupForm \<Rightarrow> field_errors + group_cleaned_data" where
  "GroupForm_full_clean db form =
     (let d = gf_data form;
          e_name = (if gp_name d = [] then [(''name'', ''required'')]
                    else if 200 < length (gp_name d) then [(''name'', ''max_length'')] else []);
          e_members = (case clean_members (GroupForm_queryset db form) (gp_members d) of
                         Inl errs \<Rightarrow> errs | Inr ms \<Rightarrow> []);
          e_currency = (if gp_default_currency d = [] then [(''default_currency'', ''required'')]
                        else if gp_default_currency d \<notin> set CURRENCY_CHOICES
                        then [(''default_currency'', ''invalid_choice'')] else [])
      in case clean_members (GroupForm_queryset db form) (gp_members d) of
           Inr ms \<Rightarrow>
             if e_name @ e_currency = []
             then Inr \<lparr>gcd_name = gp_name d, gcd_description = gp_description d,
                       gcd_members = ms, gcd_default_currency = gp_default_currency d\<rparr>
             else Inl (e_name @ e_members @ e_currency)
         | Inl errs \<Rightarrow> Inl (e_name @ e_members @ e_currency))"

text \<open>
  \<open>GroupForm.save\<close>. The instance takes the cleaned fields and, with a user, that user as
  creator. With \<open>commit\<close> it is saved and its members are set to the selected members with
  the user appended; the store refuses a creator or a member that is \<open>None\<close> (a new row
  is then not written; an edited row is, with its members as they were).
\<close>

definition GroupForm_save :: "database \<Rightarrow> GroupForm \<Rightarrow> group_cleaned_data \<Rightarrow> bool
                                \<Rightarrow> Group outcome \<times> database" where
  "GroupForm_save db form cleaned_data commit =
     (let base = (case gf_instance form of
                    Some g \<Rightarrow> g
                  | None \<Rightarrow> \<lparr>group_pk = group_seq db, group_name = [], group_description = [],
                              group_created_by = 0, group_members = [],
                              group_default_currency = ''INR'', group_is_active = True\<rparr>);
          instance = base\<lparr>group_name := gcd_name cleaned_data,
                          group_description := gcd_description cleaned_data,
                          group_default_currency := gcd_default_currency cleaned_data\<rparr>
      in case gf_user form of
           None \<Rightarrow>
             if commit
             then (case gf_instance form of
                     None \<Rightarrow> (Raised IntegrityError, db)
                   | Some g \<Rightarrow>
                       (Raised IntegrityError,
                        db\<lparr>groups := map (\<lambda>x. if group_pk x = group_pk g then instance else x)
                                          (groups db)\<rparr>))
             else (Saved instance, db)
         | Some u \<Rightarrow>
             (let instance' = instance\<lparr>group_created_by := u\<rparr>
              in if commit
                 then (let members = gcd_members cleaned_data @ [u];
                           saved = instance'\<lparr>group_members := remdups members\<rparr>
                       in case gf_instance form of
                            None \<Rightarrow>
                              (Saved saved,
                               db\<lparr>groups := groups db @ [saved], group_seq := Suc (group_seq db)\<rparr>)
                          | Some g \<Rightarrow>
                              (Saved saved,
                               db\<lparr>groups := map (\<lambda>x. if group_pk x = group_pk g then saved else x)
                                                 (groups db)\<rparr>))
                 else (Saved instance', db)))"

text \<open>
  \<open>GroupCreateView\<close> and \<open>GroupUpdateView\<close> on a POST: the form gets \<open>user=request.user\<close>;
  a valid form is saved with \<open>form.save()\<close>. The update view looks the group up among the
  active groups the user created.
\<close>

definition GroupCreateView_post :: "database \<Rightarrow> pk \<Rightarrow> group_post \<Rightarrow> Group outcome \<times> database" where
  "GroupCreateView_post db request_user post =
     (let form = \<lparr>gf_data = post, gf_user = Some request_user, gf_instance = None\<rparr>
      in case GroupForm_full_clean db form of
           Inl errs \<Rightarrow> (FormInvalid errs, db)
         | Inr cleaned_data \<Rightarrow> GroupForm_save db form cleaned_data True)"

definition GroupUpdateView_post :: "database \<Rightarrow> pk \<Rightarrow> pk \<Rightarrow> group_post
                                      \<Rightarrow> Group outcome \<times> database" where
  "GroupUpdateView_post db request_user k post =
     (case find (\<lambda>g. group_pk g = k \<and> group_created_by g = request_user \<and> group_is_active g)
             (groups db) of
        None \<Rightarrow> (Raised Http404, db)
      | Some g \<Rightarrow>
          (let form = \<lparr>gf_data = post, gf_user = Some request_user, gf_instance = Some g\<rparr>
           in case GroupForm_full_clean db form of
                Inl errs \<Rightarrow> (FormInvalid errs, db)
              | Inr cleaned_data \<Rightarrow> GroupForm_save db form cleaned_data True))"

section \<open>ExpenseForm.clean (core/split/forms.py)\<close>

text \<open>
  The cross-field checks of the expense form, on the cleaned values of the three fields
  they read (\<open>None\<close> for a value that is missing).
\<close>

record expense_cleaned =
  ec_expense_type :: "ExpenseType option"
  ec_group :: "Group option"
  ec_paid_by :: "pk option"

definition ExpenseForm_clean :: "expense_cleaned \<Rightarrow> error + expense_cleaned" where
  "ExpenseForm_clean cleaned_data =
     (let expense_type' = ec_expense_type cleaned_data;
          grp = ec_group cleaned_data;
          paid_by = ec_paid_by cleaned_data
      in if expense_type' = Some GROUP \<and> grp = None
         then Inl (FieldValidationError ''group'' ''Group expenses must belong to a group.'')
         else if expense_type' = Some PERSONAL \<and> grp \<noteq> None
         then Inl (FieldValidationError ''group''
                     ''Personal expenses should not belong to a group.'')
         else (case (expense_type', grp, paid_by) of
                 (Some GROUP, Some g, Some p) \<Rightarrow>
                   if p \<notin> set (group_members g)
                   then Inl (FieldValidationError ''paid_by''
                               ''Payer must be a member of the group.'')
                   else Inr cleaned_data
               | _ \<Rightarrow> Inr cleaned_data))"

section \<open>A concrete ledger\<close>

text \<open>
  One active group of three members and two GROUP expenses of 100.00, each paid by user 1
  and each carrying three splits of 33.33.
\<close>

definition example_group :: Group where
  "example_group =
     \<lparr>group_pk = 1, group_name = ''Roommates'', group_description = [], group_created_by = 1,
      group_members = [1, 2, 3], group_default_currency = ''INR'', group_is_active = True\<rparr>"

definition example_expense :: "pk \<Rightarrow> Expense" where
  "example_expense k =
     \<lparr>expense_pk = k, expense_description = ''Dinner'', expense_amount = 100,
      expense_currency = ''INR'', expense_type = GROUP, expense_user = 1,
      expense_group = Some 1, expense_paid_by = 1, expense_category = 1, expense_date = 0,
      expense_notes = []\<rparr>"

definition example_split :: "pk \<Rightarrow> pk \<Rightarrow> pk \<Rightarrow> ExpenseSplit" where
  "example_split k e u =
     \<lparr>split_pk = k, split_expense = e, split_user = u, split_split_type = EQUAL,
      split_amount = 3333 / 100, split_currency = ''INR'', split_percentage = None,
      split_shares = None, split_is_settled = False\<rparr>"

definition example_db :: database where
  "example_db =
     \<lparr>users = [1, 2, 3], groups = [example_group],
      expenses = [example_expense 1, example_expense 2],
      expense_splits = [example_split 1 1 1, example_split 2 1 2, example_split 3 1 3,
                        example_split 4 2 1, example_split 5 2 2, example_split 6 2 3],
      settlements = [], group_seq = 2, expense_seq = 3, split_seq = 7, settlement_seq = 1\<rparr>"

text \<open>The same ledger with every split marked settled.\<close>

definition example_db_settled :: database where
  "example_db_settled =
     example_db\<lparr>expense_splits := map (\<lambda>s. s\<lparr>split_is_settled := True\<rparr>) (expense_splits example_db)\<rparr>"

text \<open>A split form for the first expense of the ledger, bound to submitted data.\<close>

definition example_post :: "string \<Rightarrow> pk list \<Rightarrow> split_post" where
  "example_post t ms = \<lparr>post_split_type = Some t, post_members = ms\<rparr>"

definition example_form :: "string \<Rightarrow> pk list \<Rightarrow> SimpleSplitForm" where
  "example_form t ms =
     \<lparr>ssf_data = example_post t ms, ssf_group = Some example_group,
      ssf_expense = Some (example_expense 1)\<rparr>"

text \<open>
  A settlement request of 33.33 between two users of the group, carrying the keys of the
  allocations it is meant to close.
\<close>

definition example_settlement_post :: "pk \<Rightarrow> pk \<Rightarrow> pk list \<Rightarrow> settlement_post" where
  "example_settlement_post payer payee refs =
     \<lparr>sp_paid_by = Some payer, sp_paid_to = Some payee, sp_amount = Some (3333 / 100),
      sp_settlement_date = Some 1, sp_payment_method = ''UPI'', sp_notes = [],
      sp_expense_splits = refs\<rparr>"

text \<open>The row that request leaves in the store when user 2 pays user 1.\<close>

definition example_settlement :: Settlement where
  "example_settlement =
     \<lparr>settlement_pk = 1, settlement_group = 1, settlement_paid_by = 2, settlement_paid_to = 1,
      settlement_amount = 3333 / 100, settlement_currency = ''INR'', settlement_date = 1,
      settlement_notes = [], settlement_payment_method = ''UPI'',
      settlement_expense_splits = []\<rparr>"

text \<open>
  A PERCENTAGE formset for the first expense: users 1 and 2 with 50.00 and the given
  second percentage.
\<close>

definition example_split_form :: "pk \<Rightarrow> Decimal \<Rightarrow> split_form" where
  "example_split_form u p =
     \<lparr>form_errors = [],
      form_cleaned_data = Some \<lparr>fc_user = Some u, fc_amount = None, fc_percentage = Some p,
                                fc_shares = None, fc_DELETE = False\<rparr>\<rparr>"

definition example_formset :: "Decimal \<Rightarrow> ExpenseSplitFormSet" where
  "example_formset p =
     \<lparr>fs_forms = [example_split_form 1 50, example_split_form 2 p],
      fs_expense = Some (example_expense 1), fs_split_type = PERCENTAGE\<rparr>"

text \<open>A group form submission selecting the members 2 and 3.\<close>

definition example_group_post :: group_post where
  "example_group_post =
     \<lparr>gp_name = ''Trip'', gp_description = [], gp_members = [2, 3],
      gp_default_currency = ''INR''\<rparr>"

text \<open>The group that submission creates for user 1, and the first group as it edits it.\<close>

definition example_created_group :: Group where
  "example_created_group =
     \<lparr>group_pk = 2, group_name = ''Trip'', group_description = [], group_created_by = 1,
      group_members = [2, 3, 1], group_default_currency = ''INR'', group_is_active = True\<rparr>"

definition example_updated_group :: Group where
  "example_updated_group = example_created_group\<lparr>group_pk := 1\<rparr>"

text \<open>
  The ledger with the second group added after the first, and a third expense of 100.00
  that user 1 paid in the second group.
\<close>

definition example_db_two_groups :: database where
  "example_db_two_groups =
     example_db\<lparr>groups := [example_group, example_created_group],
                expenses := expenses example_db @ [(example_expense 3)\<lparr>expense_group := Some 2\<rparr>]\<rparr>"

section \<open>Properties of the balance views\<close>

lemma or_zero_aggregate_Sum: "or_zero (aggregate_Sum xs) = sum_list xs"
  by (simp add: or_zero_def aggregate_Sum_def)

lemma paid_total_spec: "paid_total db grp m = spec_paid db grp m"
  unfolding paid_total_def spec_paid_def or_zero_aggregate_Sum sum_list_map_filter'
  by (rule arg_cong [where f = sum_list], rule map_cong) auto

lemma owed_total_spec: "owed_total db grp m = spec_owed db grp m"
  unfolding owed_total_def spec_owed_def or_zero_aggregate_Sum sum_list_map_filter'
  by (rule arg_cong [where f = sum_list], rule map_cong) auto



lemma fold_dict_set_distinct:
  "distinct ms \<Longrightarrow> set ms \<inter> fst ` set d0 = {} \<Longrightarrow>
   fold (\<lambda>m d. dict_set m (f m) d) ms d0 = d0 @ map (\<lambda>m. (m, f m)) ms"
proof (induction ms arbitrary: d0)
  case Nil
  then show ?case by simp
next
  case (Cons m ms)
  have new: "dict_set m (f m) d0 = d0 @ [(m, f m)]"
    using Cons.prems(2) by (induction d0) auto
  have "set ms \<inter> fst ` set (d0 @ [(m, f m)]) = {}"
    using Cons.prems by auto
  with Cons.IH [of "d0 @ [(m, f m)]"] Cons.prems(1) new show ?case by simp
qed





lemma sum_list_indicator_distinct:
  fixes c :: "'a::comm_monoid_add"
  shows "distinct ms \<Longrightarrow> (\<Sum>m\<leftarrow>ms. if k = m then c else 0) = (if k \<in> set ms then c else 0)"
  by (induction ms) auto

lemma sum_by_key:
  fixes f :: "'x \<Rightarrow> 'a::comm_monoid_add"
  assumes "distinct ms" and "\<forall>x\<in>set xs. P x \<longrightarrow> key x \<in> set ms"
  shows "(\<Sum>m\<leftarrow>ms. \<Sum>x\<leftarrow>xs. if P x \<and> key x = m then f x else 0) = (\<Sum>x\<leftarrow>xs. if P x then f x else 0)"
  using assms(2)
proof (induction xs)
  case Nil
  then show ?case by simp
next
  case (Cons x xs)
  have "(\<Sum>m\<leftarrow>ms. \<Sum>y\<leftarrow>x # xs. if P y \<and> key y = m then f y else 0)
      = (\<Sum>m\<leftarrow>ms. (if key x = m then (if P x then f x else 0) else 0)
                  + (\<Sum>y\<leftarrow>xs. if P y \<and> key y = m then f y else 0))"
    by (rule arg_cong [where f = sum_list], rule map_cong) auto
  also have "\<dots> = (\<Sum>m\<leftarrow>ms. if key x = m then (if P x then f x else 0) else 0)
                 + (\<Sum>m\<leftarrow>ms. \<Sum>y\<leftarrow>xs. if P y \<and> key y = m then f y else 0)"
    by (simp add: sum_list_addf)
  also have "(\<Sum>m\<leftarrow>ms. if key x = m then (if P x then f x else 0) else 0) = (if P x then f x else 0)"
    using Cons.prems assms(1) by (simp add: sum_list_indicator_distinct)
  also have "(\<Sum>m\<leftarrow>ms. \<Sum>y\<leftarrow>xs. if P y \<and> key y = m then f y else 0) = (\<Sum>y\<leftarrow>xs. if P y then f y else 0)"
    using Cons by simp
  finally show ?case by simp
qed

lemma find_distinct_pk:
  "distinct (map expense_pk es) \<Longrightarrow> e \<in> set es \<Longrightarrow> find (\<lambda>x. expense_pk x = expense_pk e) es = Some e"
  by (induction es) (auto simp: image_iff)

lemma find_Some_mem: "find P xs = Some x \<Longrightarrow> x \<in> set xs \<and> P x"
  by (induction xs) (auto split: if_splits)

lemma split_group_member:
  assumes "split_expense_group db s = Some g"
  shows "split_expense s \<in> set (map expense_pk (filter (\<lambda>e. expense_group e = Some g) (expenses db)))"
proof -
  from assms obtain e where e: "find (\<lambda>e. expense_pk e = split_expense s) (expenses db) = Some e"
    and g: "expense_group e = Some g"
    by (auto simp: split_expense_group_def expense_of_def split: option.splits)
  from find_Some_mem [OF e] g show ?thesis by (auto simp: image_iff)
qed

lemma split_group_of_expense:
  assumes "distinct (map expense_pk (expenses db))" "e \<in> set (expenses db)" "expense_group e = Some g"
    "split_expense s = expense_pk e"
  shows "split_expense_group db s = Some g"
  using find_distinct_pk [OF assms(1,2)] assms(3,4)
  by (simp add: split_expense_group_def expense_of_def)

lemma total_owed_by_expense:
  assumes d: "distinct (map expense_pk (expenses db))"
  shows "(\<Sum>s\<leftarrow>expense_splits db. if split_expense_group db s = Some (group_pk grp) then split_amount s else 0)
       = (\<Sum>e\<leftarrow>group_expenses db grp. allocated db e)"
proof -
  let ?g = "group_pk grp"
  let ?ks = "map expense_pk (group_expenses db grp)"
  let ?P = "\<lambda>s. split_expense_group db s = Some ?g"
  have dk: "distinct ?ks"
    using d unfolding group_expenses_def by (simp add: distinct_map_filter)
  have mem: "\<forall>s\<in>set (expense_splits db). ?P s \<longrightarrow> split_expense s \<in> set ?ks"
    using split_group_member [of db _ ?g] unfolding group_expenses_def by blast
  have "(\<Sum>s\<leftarrow>expense_splits db. if ?P s then split_amount s else 0)
      = (\<Sum>k\<leftarrow>?ks. \<Sum>s\<leftarrow>expense_splits db. if ?P s \<and> split_expense s = k then split_amount s else 0)"
    using sum_by_key [OF dk mem, of split_amount] by simp
  also have "\<dots> = (\<Sum>e\<leftarrow>group_expenses db grp.
        \<Sum>s\<leftarrow>expense_splits db. if ?P s \<and> split_expense s = expense_pk e then split_amount s else 0)"
    by (simp add: comp_def)
  also have "\<dots> = (\<Sum>e\<leftarrow>group_expenses db grp. allocated db e)"
  proof (rule arg_cong [where f = sum_list], rule map_cong [OF refl])
    fix e assume "e \<in> set (group_expenses db grp)"
    then have e: "e \<in> set (expenses db)" "expense_group e = Some ?g"
      by (auto simp: group_expenses_def)
    have "\<And>s. split_expense s = expense_pk e \<Longrightarrow> ?P s"
      using split_group_of_expense [OF d e] by simp
    then have "(\<Sum>s\<leftarrow>expense_splits db. if ?P s \<and> split_expense s = expense_pk e then split_amount s else 0)
       = (\<Sum>s\<leftarrow>expense_splits db. if split_expense s = expense_pk e then split_amount s else 0)"
      by (intro arg_cong [where f = sum_list] map_cong) auto
    then show "(\<Sum>s\<leftarrow>expense_splits db. if ?P s \<and> split_expense s = expense_pk e then split_amount s else 0)
       = allocated db e"
      by (simp add: allocated_def sum_list_map_filter')
  qed
  finally show ?thesis .
qed

lemma total_balance_distinct:
  assumes "distinct (group_members grp)"
  shows "total_balance (calculate_group_balances db grp)
       = (\<Sum>m\<leftarrow>group_members grp. spec_paid db grp m) - (\<Sum>m\<leftarrow>group_members grp. spec_owed db grp m)"
proof -
  have "calculate_group_balances db grp
      = map (\<lambda>m. (m, \<lparr>paid = spec_paid db grp m, owed = spec_owed db grp m,
                        balance = spec_paid db grp m - spec_owed db grp m\<rparr>)) (group_members grp)"
    unfolding calculate_group_balances_def Let_def paid_total_spec owed_total_spec
    using fold_dict_set_distinct [OF assms, of "[]"] by simp
  then show ?thesis
    by (simp add: total_balance_def comp_def sum_list_subtractf)
qed

lemma total_balance_by_expense:
  assumes "ledger_wf db grp"
  shows "total_balance (calculate_group_balances db grp)
       = (\<Sum>e\<leftarrow>group_expenses db grp. expense_amount e - allocated db e)"
proof -
  let ?g = "group_pk grp" and ?ms = "group_members grp"
  from assms have dm: "distinct ?ms" and dk: "distinct (map expense_pk (expenses db))"
    and ex: "\<forall>e\<in>set (group_expenses db grp). expense_type e = GROUP \<and> expense_paid_by e \<in> set ?ms"
    and sp: "\<forall>s\<in>set (expense_splits db). split_expense_group db s = Some ?g \<longrightarrow> split_user s \<in> set ?ms"
    by (auto simp: ledger_wf_def list_all_iff)
  let ?Pe = "\<lambda>e. expense_type e = GROUP \<and> expense_group e = Some ?g"
  have "\<forall>e\<in>set (expenses db). ?Pe e \<longrightarrow> expense_paid_by e \<in> set ?ms"
    using ex by (auto simp: group_expenses_def)
  from sum_by_key [OF dm this, of expense_amount]
  have "(\<Sum>m\<leftarrow>?ms. spec_paid db grp m) = (\<Sum>e\<leftarrow>expenses db. if ?Pe e then expense_amount e else 0)"
    by (simp add: spec_paid_def conj_assoc)
  also have "\<dots> = (\<Sum>e\<leftarrow>expenses db. if expense_group e = Some ?g then expense_amount e else 0)"
    using ex by (intro arg_cong [where f = sum_list] map_cong) (auto simp: group_expenses_def)
  also have "\<dots> = (\<Sum>e\<leftarrow>group_expenses db grp. expense_amount e)"
    by (simp add: group_expenses_def sum_list_map_filter')
  finally have p: "(\<Sum>m\<leftarrow>?ms. spec_paid db grp m) = (\<Sum>e\<leftarrow>group_expenses db grp. expense_amount e)" .
  from sum_by_key [OF dm sp, of split_amount]
  have "(\<Sum>m\<leftarrow>?ms. spec_owed db grp m)
      = (\<Sum>s\<leftarrow>expense_splits db. if split_expense_group db s = Some ?g then split_amount s else 0)"
    by (simp add: spec_owed_def)
  with total_owed_by_expense [OF dk, of grp]
  have o: "(\<Sum>m\<leftarrow>?ms. spec_owed db grp m) = (\<Sum>e\<leftarrow>group_expenses db grp. allocated db e)"
    by simp
  show ?thesis
    by (simp add: total_balance_distinct [OF dm] p o sum_list_subtractf)
qed

lemma sum_list_abs_bound:
  fixes f :: "'x \<Rightarrow> rat"
  shows "\<forall>x\<in>set xs. \<bar>f x\<bar> \<le> c \<Longrightarrow> \<bar>\<Sum>x\<leftarrow>xs. f x\<bar> \<le> of_nat (length xs) * c"
proof (induction xs)
  case Nil
  then show ?case by simp
next
  case (Cons x xs)
  then have "\<bar>f x\<bar> \<le> c" "\<bar>\<Sum>x\<leftarrow>xs. f x\<bar> \<le> of_nat (length xs) * c" by auto
  then show ?case by (simp add: algebra_simps)
qed


lemmas example_defs = example_db_def example_group_def example_expense_def example_split_def

lemma example_ledger_wf: "ledger_wf example_db example_group"
  by (simp add: ledger_wf_def group_expenses_def split_expense_group_def expense_of_def example_defs)

lemma example_all_reconcile: "all_reconcile example_db example_group"
  by (simp add: all_reconcile_def reconciles_def allocated_def group_expenses_def example_defs)

lemma example_total_balance: "total_balance (calculate_group_balances example_db example_group) = 2 / 100"
  by (simp add: total_balance_def calculate_group_balances_def paid_total_def owed_total_def
      or_zero_def aggregate_Sum_def split_expense_group_def expense_of_def Let_def example_defs)

text \<open>
  Claim C3, as stated: in a group whose expenses all reconcile within 0.01 and whose payers
  and allocation users are members, the balances of \<open>calculate_group_balances\<close> sum to
  zero within 0.01. It fails on the concrete ledger: two expenses each reconcile within
  0.01 and the balances sum to 0.02.
\<close>

theorem group_balances_sum_counterexample:
  "ledger_wf example_db example_group \<and> all_reconcile example_db example_group
   \<and> \<not> \<bar>total_balance (calculate_group_balances example_db example_group)\<bar> \<le> 1 / 100"
  by (simp add: example_ledger_wf example_all_reconcile example_total_balance)

text \<open>
  Claim C3, amended: under the same conditions the balances sum to the sum over the
  group's expenses of amount minus allocated amount, so their sum is within 0.01 times
  the number of the group's expenses of zero.
\<close>

theorem group_balances_sum_bound:
  assumes "ledger_wf db grp" and "all_reconcile db grp"
  shows "total_balance (calculate_group_balances db grp)
           = (\<Sum>e\<leftarrow>group_expenses db grp. expense_amount e - allocated db e)
       \<and> \<bar>total_balance (calculate_group_balances db grp)\<bar>
           \<le> of_nat (length (group_expenses db grp)) / 100"
proof -
  have "\<forall>e\<in>set (group_expenses db grp). \<bar>expense_amount e - allocated db e\<bar> \<le> 1 / 100"
    using assms(2) by (simp add: all_reconcile_def list_all_iff reconciles_def)
  from sum_list_abs_bound [OF this] show ?thesis
    by (simp add: total_balance_by_expense [OF assms(1)])
qed

theorem group_balances_sum_bound_witness:
  "ledger_wf example_db example_group \<and> all_reconcile example_db example_group
   \<and> \<bar>total_balance (calculate_group_balances example_db example_group)\<bar>
       \<le> of_nat (length (group_expenses example_db example_group)) / 100"
proof -
  note wf = example_ledger_wf and rec = example_all_reconcile
  have "\<bar>total_balance (calculate_group_balances example_db example_group)\<bar>
       \<le> of_nat (length (group_expenses example_db example_group)) / 100"
    using group_balances_sum_bound [OF wf rec] by (rule conjunct2)
  with wf rec show ?thesis by blast
qed



lemma owed_total_open_spec: "owed_total_open db grp m = spec_owed_open db grp m"
  unfolding owed_total_open_def spec_owed_open_def or_zero_aggregate_Sum sum_list_map_filter'
  by (rule arg_cong [where f = sum_list], rule map_cong) auto

lemma user_balances_loop_eq:
  "user_balances_loop db user gs =
     map (\<lambda>g. \<lparr>ub_group = g, ub_balance = outstanding_balance db user g,
                ub_status = (if outstanding_balance db user g > 0 then ''owed'' else ''owes'')\<rparr>)
         (filter (\<lambda>g. outstanding_balance db user g \<noteq> 0) gs)"
  by (induction gs)
     (simp_all add: Let_def outstanding_balance_def paid_total_spec owed_total_open_spec)

lemma sum_list_all_zero:
  fixes f :: "'x \<Rightarrow> rat"
  shows "\<forall>x\<in>set xs. f x = 0 \<Longrightarrow> (\<Sum>x\<leftarrow>xs. f x) = 0"
  by (induction xs) auto

lemma no_open_spec_owed_open:
  assumes "no_open_allocations db user"
  shows "spec_owed_open db grp user = 0"
proof -
  have "\<forall>s\<in>set (expense_splits db). split_user s \<noteq> user \<or> split_is_settled s"
    using assms by (simp add: no_open_allocations_def list_all_iff)
  then show ?thesis
    unfolding spec_owed_open_def by (intro sum_list_all_zero) auto
qed

lemma paid_nothing_spec_paid:
  assumes "paid_no_group_expense db user"
  shows "spec_paid db grp user = 0"
proof -
  have "\<forall>e\<in>set (expenses db). expense_paid_by e \<noteq> user \<or> expense_type e \<noteq> GROUP"
    using assms by (simp add: paid_no_group_expense_def list_all_iff)
  then show ?thesis
    unfolding spec_paid_def by (intro sum_list_all_zero) auto
qed

lemma example_settled_no_open_1: "no_open_allocations example_db_settled 1"
  by (simp add: no_open_allocations_def example_db_settled_def example_defs)

lemma example_settled_balances_1:
  "calculate_user_balances example_db_settled 1
     = [\<lparr>ub_group = example_group, ub_balance = 200, ub_status = ''owed''\<rparr>]"
  by (simp add: calculate_user_balances_def Group_objects_def paid_total_def owed_total_open_def
      or_zero_def aggregate_Sum_def split_expense_group_def expense_of_def Let_def
      example_db_settled_def example_defs)

lemma example_settled_no_open_2: "no_open_allocations example_db_settled 2"
  by (simp add: no_open_allocations_def example_db_settled_def example_defs)

lemma example_settled_paid_nothing_2: "paid_no_group_expense example_db_settled 2"
  by (simp add: paid_no_group_expense_def example_db_settled_def example_defs)

text \<open>
  Claim C5, as stated: a user with no open allocation in any group gets an empty list. It
  fails on the settled ledger: user 1 has no open allocation, has paid 200.00, and gets
  one entry with balance 200.00.
\<close>

theorem user_balances_empty_counterexample:
  "no_open_allocations example_db_settled 1
   \<and> calculate_user_balances example_db_settled 1
       = [\<lparr>ub_group = example_group, ub_balance = 200, ub_status = ''owed''\<rparr>]
   \<and> calculate_user_balances example_db_settled 1 \<noteq> []"
  using example_settled_no_open_1 example_settled_balances_1 by simp

text \<open>
  Claim C5, amended: \<open>calculate_user_balances\<close> returns, for the active groups of the user
  from the newest to the oldest, exactly the entries whose outstanding balance (paid minus
  the owed of open allocations) is not zero. For a user with no open allocation that
  balance is the paid total, and the list is empty when the user has also paid no GROUP
  expense.
\<close>

theorem user_balances_outstanding:
  "calculate_user_balances db user =
     map (\<lambda>g. \<lparr>ub_group = g, ub_balance = outstanding_balance db user g,
                ub_status = (if outstanding_balance db user g > 0 then ''owed'' else ''owes'')\<rparr>)
         (filter (\<lambda>g. user \<in> set (group_members g) \<and> group_is_active g
                       \<and> outstanding_balance db user g \<noteq> 0) (rev (groups db)))
   \<and> (no_open_allocations db user \<longrightarrow> (\<forall>g. outstanding_balance db user g = spec_paid db g user))
   \<and> (no_open_allocations db user \<and> paid_no_group_expense db user
        \<longrightarrow> calculate_user_balances db user = [])"
proof (intro conjI impI allI)
  show eq: "calculate_user_balances db user =
     map (\<lambda>g. \<lparr>ub_group = g, ub_balance = outstanding_balance db user g,
                ub_status = (if outstanding_balance db user g > 0 then ''owed'' else ''owes'')\<rparr>)
         (filter (\<lambda>g. user \<in> set (group_members g) \<and> group_is_active g
                       \<and> outstanding_balance db user g \<noteq> 0) (rev (groups db)))"
    by (simp add: calculate_user_balances_def Group_objects_def user_balances_loop_eq
        conj_commute conj_left_commute)
  show "outstanding_balance db user g = spec_paid db g user" if "no_open_allocations db user" for g
    using no_open_spec_owed_open [OF that] by (simp add: outstanding_balance_def)
  show "calculate_user_balances db user = []"
    if "no_open_allocations db user \<and> paid_no_group_expense db user"
    using that no_open_spec_owed_open [of db user] paid_nothing_spec_paid [of db user]
    by (simp add: eq outstanding_balance_def)
qed

theorem user_balances_outstanding_witness:
  "no_open_allocations example_db_settled 2 \<and> paid_no_group_expense example_db_settled 2
   \<and> calculate_user_balances example_db_settled 2 = []
   \<and> calculate_user_balances example_db_two_groups 1
       = [\<lparr>ub_group = example_created_group, ub_balance = 100, ub_status = ''owed''\<rparr>,
          \<lparr>ub_group = example_group, ub_balance = 6667 / 50, ub_status = ''owed''\<rparr>]"
proof -
  note a = example_settled_no_open_2 and b = example_settled_paid_nothing_2
  have 1: "calculate_user_balances example_db_settled 2 = []"
    using user_balances_outstanding [of example_db_settled 2] a b by blast
  have g: "rev (groups example_db_two_groups) = [example_created_group, example_group]"
    by (simp add: example_db_two_groups_def)
  have o: "outstanding_balance example_db_two_groups 1 example_created_group = 100"
    "outstanding_balance example_db_two_groups 1 example_group = 6667 / 50"
    by (simp_all add: outstanding_balance_def spec_paid_def spec_owed_open_def
        split_expense_group_def expense_of_def example_db_two_groups_def
        example_created_group_def example_defs)
  have m: "1 \<in> set (group_members example_created_group)" "group_is_active example_created_group"
    "1 \<in> set (group_members example_group)" "group_is_active example_group"
    by (simp_all add: example_created_group_def example_group_def)
  have 2: "calculate_user_balances example_db_two_groups 1
       = [\<lparr>ub_group = example_created_group, ub_balance = 100, ub_status = ''owed''\<rparr>,
          \<lparr>ub_group = example_group, ub_balance = 6667 / 50, ub_status = ''owed''\<rparr>]"
    using user_balances_outstanding [of example_db_two_groups 1] m o
    unfolding g by simp
  from a b 1 2 show ?thesis by blast
qed

section \<open>Properties of the decimal operations\<close>


lemma ndigits_small: "n < 10 \<Longrightarrow> ndigits n = 1"
  by (simp add: ndigits.simps)

lemma ndigits_step: "\<not> n < 10 \<Longrightarrow> ndigits n = Suc (ndigits (n div 10))"
  by (subst ndigits.simps) simp

lemma round_half_even_of_int [simp]: "round_half_even (of_int k) = k"
  by (simp add: round_half_even_def)

lemma round_half_even_divide:
  assumes "0 < q"
  shows "round_half_even (of_int p / of_int q) =
     (let f = p div q; r = p mod q
      in if 2 * r < q then f else if q < 2 * r then f + 1 else if even f then f else f + 1)"
proof -
  have f: "\<lfloor>(of_int p / of_int q :: rat)\<rfloor> = p div q"
    by (rule floor_divide_of_int_eq)
  have "(of_int p :: rat) = of_int (p div q) * of_int q + of_int (p mod q)"
    by (metis of_int_add of_int_mult div_mult_mod_eq)
  then have d: "(of_int p / of_int q :: rat) - of_int (p div q) = of_int (p mod q) / of_int q"
    using assms by (simp add: field_simps)
  have lt: "(of_int (p mod q) / of_int q :: rat) < 1 / 2 \<longleftrightarrow> 2 * (p mod q) < q"
  proof -
    have "(of_int (p mod q) / of_int q :: rat) < 1 / 2 \<longleftrightarrow> (of_int (2 * (p mod q)) :: rat) < of_int q"
      using assms by (simp add: field_simps)
    then show ?thesis by (simp only: of_int_less_iff)
  qed
  have gt: "(1 / 2 :: rat) < of_int (p mod q) / of_int q \<longleftrightarrow> q < 2 * (p mod q)"
  proof -
    have "(1 / 2 :: rat) < of_int (p mod q) / of_int q \<longleftrightarrow> (of_int q :: rat) < of_int (2 * (p mod q))"
      using assms by (simp add: field_simps)
    then show ?thesis by (simp only: of_int_less_iff)
  qed
  show ?thesis
    unfolding round_half_even_def Let_def f d lt gt by simp
qed

lemma round_half_even_numeral:
  "round_half_even (numeral a / numeral b) =
     (let f = numeral a div numeral b; r = numeral a mod numeral b :: int
      in if 2 * r < numeral b then f else if numeral b < 2 * r then f + 1
         else if even f then f else f + 1)"
  using round_half_even_divide [of "numeral b" "numeral a"] by simp

lemma floor_numeral_divide: "\<lfloor>numeral a / numeral b :: rat\<rfloor> = numeral a div numeral b"
  using floor_divide_of_int_eq [of "numeral a" "numeral b", where ?'a = rat] by simp

lemma ndigits_le: "n < 10 ^ k \<Longrightarrow> 0 < k \<Longrightarrow> ndigits n \<le> k"
proof (induction k arbitrary: n)
  case 0
  then show ?case by simp
next
  case (Suc k)
  show ?case
  proof (cases "n < 10")
    case True
    then show ?thesis by (simp add: ndigits_small)
  next
    case False
    with Suc.prems have k: "0 < k" by (cases k) auto
    from Suc.prems have "n div 10 < 10 ^ k"
      by (simp add: less_mult_imp_div_less mult.commute)
    from Suc.IH [OF this k] False show ?thesis by (simp add: ndigits_step)
  qed
qed

lemma adjusted_le:
  assumes "\<bar>x\<bar> < 10 ^ k" "0 < k"
  shows "adjusted x \<le> int k - 1"
proof (cases "1 \<le> \<bar>x\<bar>")
  case True
  have "\<lfloor>\<bar>x\<bar>\<rfloor> < 10 ^ k"
    using assms(1) by (simp add: floor_less_iff)
  then have "nat \<lfloor>\<bar>x\<bar>\<rfloor> < 10 ^ k"
    by (metis nat_less_iff of_nat_numeral of_nat_power zero_le_floor abs_ge_zero)
  from ndigits_le [OF this assms(2)] True show ?thesis by (simp add: adjusted_def)
next
  case False
  then show ?thesis using assms(2) by (simp add: adjusted_def)
qed

lemma context_round_exact:
  assumes x: "x = of_int c / 100" and b: "\<bar>x\<bar> < 10 ^ 26"
  shows "context_round x = x"
proof (cases "x = 0")
  case True
  then show ?thesis by (simp add: context_round_def)
next
  case False
  define j where "j = nat (27 - adjusted x)"
  from adjusted_le [OF b] have a: "adjusted x \<le> 25" by simp
  then have e: "adjusted x - 27 = - int j" and j: "2 \<le> j" by (simp_all add: j_def)
  have p: "pow10 (adjusted x - 27) = 1 / 10 ^ j"
    using j by (simp add: e pow10_def)
  from j obtain i where i: "j = i + 2" by (metis add.commute le_Suc_ex)
  have "x / pow10 (adjusted x - 27) = x * 10 ^ j"
    by (simp add: p)
  also have "\<dots> = of_int (c * 10 ^ i)"
    by (simp add: x i)
  finally have "x / pow10 (adjusted x - 27) = of_int (c * 10 ^ i)" .
  then have "of_int (round_half_even (x / pow10 (adjusted x - 27))) * pow10 (adjusted x - 27)
      = of_int (c * 10 ^ i) * (1 / 10 ^ j)"
    by (simp only: round_half_even_of_int p)
  also have "\<dots> = x" by (simp add: x i)
  finally show ?thesis using False by (simp add: context_round_def Let_def)
qed

lemma quantize_2_exact: "x = of_int c / 100 \<Longrightarrow> quantize_2 x = x"
  by (simp add: quantize_2_def)

lemma money_amount_hundredths: "money_amount a \<Longrightarrow> a = of_int (hundredths a) / 100"
  by (simp add: money_amount_def hundredths_def field_simps)

lemma equal_share_exact:
  assumes m: "money_amount a" and n: "0 < n" and d: "int n dvd hundredths a"
  shows "quantize_2 (context_round (a / of_nat n)) = a / of_nat n"
proof -
  from d obtain k where k: "hundredths a = int n * k" ..
  have a: "a = of_int (int n * k) / 100"
    using money_amount_hundredths [OF m] k by simp
  then have q: "a / of_nat n = of_int k / 100" using n by simp
  have "0 < a" "a < 10 ^ 12" using m by (simp_all add: money_amount_def)
  moreover have "a / of_nat n \<le> a"
    using n \<open>0 < a\<close> by (simp add: field_simps mult_le_cancel_left1)
  moreover have "0 \<le> a / of_nat n" using \<open>0 < a\<close> by simp
  ultimately have "\<bar>a / of_nat n\<bar> < 10 ^ 26" by simp
  from context_round_exact [OF q this] quantize_2_exact [OF q] show ?thesis by simp
qed

section \<open>Properties of the split form\<close>

lemma create_splits_eq:
  "create_splits db e t a ms acc =
     (acc @ equal_rows (split_seq db) e t a ms,
      db\<lparr>expense_splits := expense_splits db @ equal_rows (split_seq db) e t (quantize_2 a) ms,
         split_seq := split_seq db + length ms\<rparr>)"
  by (induction ms arbitrary: db acc) (simp_all add: create_split_def Let_def)

lemma equal_rows_user [simp]: "map split_user (equal_rows k e t a ms) = ms"
  by (induction ms arbitrary: k) simp_all

lemma equal_rows_amount [simp]: "map split_amount (equal_rows k e t a ms) = replicate (length ms) a"
  by (induction ms arbitrary: k) simp_all

lemma equal_rows_expense [simp]:
  "filter (\<lambda>s. split_expense s = expense_pk e) (equal_rows k e t a ms) = equal_rows k e t a ms"
  by (induction ms arbitrary: k) simp_all

lemma equal_rows_other [simp]:
  "filter (\<lambda>s. split_expense s \<noteq> expense_pk e) (equal_rows k e t a ms) = []"
  by (induction ms arbitrary: k) simp_all

lemma sum_list_replicate_rat: "sum_list (replicate n (a::rat)) = of_nat n * a"
  by (induction n) (simp_all add: algebra_simps)

lemma delete_splits_simps [simp]:
  "filter (\<lambda>s. split_expense s = expense_pk e) (expense_splits (delete_splits db e)) = []"
  "filter (\<lambda>s. split_expense s \<noteq> expense_pk e) (expense_splits (delete_splits db e))
     = filter (\<lambda>s. split_expense s \<noteq> expense_pk e) (expense_splits db)"
  "expenses (delete_splits db e) = expenses db"
  "groups (delete_splits db e) = groups db"
  "users (delete_splits db e) = users db"
  "split_seq (delete_splits db e) = split_seq db"
  by (simp_all add: delete_splits_def Let_def)

lemma SimpleSplitForm_save_equal:
  assumes "cd_split_type cd = EQUAL" and "cd_members cd \<noteq> []"
  shows "SimpleSplitForm_save db (Some e) cd =
     (Inr (equal_rows (split_seq db) e EQUAL
             (context_round (expense_amount e / of_nat (length (cd_members cd)))) (cd_members cd)),
      (delete_splits db e)
        \<lparr>expense_splits := expense_splits (delete_splits db e)
            @ equal_rows (split_seq db) e EQUAL (equal_share e (length (cd_members cd))) (cd_members cd),
         split_seq := split_seq db + length (cd_members cd)\<rparr>)"
  using assms
  by (simp add: SimpleSplitForm_save_def Let_def decimal_div_def create_splits_eq equal_share_def)

lemma SimpleSplitForm_save_other:
  assumes "cd_split_type cd \<noteq> EQUAL"
  shows "SimpleSplitForm_save db (Some e) cd = (Inr [], delete_splits db e)"
  using assms by (simp add: SimpleSplitForm_save_def Let_def)

lemma adjusted_100_3: "adjusted (100 / 3) = 1"
  by (simp add: adjusted_def floor_numeral_divide ndigits_small ndigits_step)

lemma context_round_100_3:
  "context_round (100 / 3) = 3333333333333333333333333333 / 100000000000000000000000000"
  by (simp add: context_round_def adjusted_100_3 pow10_def round_half_even_numeral)

lemma equal_share_example: "equal_share (example_expense 1) 3 = 3333 / 100"
  by (simp add: equal_share_def example_expense_def context_round_100_3 quantize_2_def
      round_half_even_numeral)

lemma money_amount_example: "money_amount (expense_amount (example_expense k))"
  by (simp add: money_amount_def example_expense_def)

lemma hundredths_example: "hundredths (expense_amount (example_expense k)) = 10000"
  by (simp add: hundredths_def example_expense_def)




lemma example_form_clean:
  "SimpleSplitForm_full_clean (example_form ''percentage'' [1, 2])
     = Inr \<lparr>cd_split_type = PERCENTAGE, cd_members = [1, 2]\<rparr>"
  by (simp add: SimpleSplitForm_full_clean_def example_form_def example_post_def
      clean_split_type_def SplitType_of_value_def clean_members_def members_queryset_def
      example_group_def)





text \<open>
  An expense the form accepts with a group is a GROUP expense, and its payer is a member
  of that group.
\<close>

lemma ExpenseForm_clean_accepts:
  assumes "ExpenseForm_clean cd = Inr cd'" and "ec_expense_type cd = Some t"
    and "ec_group cd = Some g" and "ec_paid_by cd = Some p"
  shows "cd' = cd \<and> t = GROUP \<and> p \<in> set (group_members g)"
  using assms
  by (cases t) (auto simp: ExpenseForm_clean_def Let_def split: if_splits)

lemma ExpenseForm_clean_group_required:
  "ec_expense_type cd = Some GROUP \<Longrightarrow> ec_group cd = None \<Longrightarrow>
   ExpenseForm_clean cd = Inl (FieldValidationError ''group'' ''Group expenses must belong to a group.'')"
  by (simp add: ExpenseForm_clean_def)

text \<open>
  Claim C1, as stated: an EQUAL allocation of a positive two-place amount among a non-empty
  duplicate-free participant set sums to the expense amount exactly. It fails for 100.00
  among three members: \<open>save\<close> returns three objects of
  33.33333333333333333333333333, the rows hold 33.33 each, and they sum to 99.99.
\<close>

theorem equal_split_remainder_counterexample:
  "money_amount (expense_amount (example_expense 1)) \<and> distinct [1::pk, 2, 3]
   \<and> fst (SimpleSplitForm_save example_db (Some (example_expense 1))
             \<lparr>cd_split_type = EQUAL, cd_members = [1, 2, 3]\<rparr>)
       = Inr (equal_rows 7 (example_expense 1) EQUAL
                (3333333333333333333333333333 / 100000000000000000000000000) [1, 2, 3])
   \<and> map split_amount (filter (\<lambda>s. split_expense s = 1)
        (expense_splits (snd (SimpleSplitForm_save example_db (Some (example_expense 1))
             \<lparr>cd_split_type = EQUAL, cd_members = [1, 2, 3]\<rparr>))))
       = [3333 / 100, 3333 / 100, 3333 / 100]
   \<and> allocated (snd (SimpleSplitForm_save example_db (Some (example_expense 1))
             \<lparr>cd_split_type = EQUAL, cd_members = [1, 2, 3]\<rparr>)) (example_expense 1) = 9999 / 100
   \<and> allocated (snd (SimpleSplitForm_save example_db (Some (example_expense 1))
             \<lparr>cd_split_type = EQUAL, cd_members = [1, 2, 3]\<rparr>)) (example_expense 1)
       \<noteq> expense_amount (example_expense 1)"
proof -
  let ?cd = "\<lparr>cd_split_type = EQUAL, cd_members = [1, 2, 3]\<rparr>"
  let ?r = "SimpleSplitForm_save example_db (Some (example_expense 1)) ?cd"
  have sel: "cd_split_type ?cd = EQUAL" "cd_members ?cd = [1, 2, 3]" by simp_all
  have len: "length [1::pk, 2, 3] = 3" "of_nat (3::nat) = (3::rat)" by simp_all
  have seq: "split_seq example_db = 7" "7 + (3::nat) = 10" by (simp_all add: example_db_def)
  have amt: "expense_amount (example_expense 1) = 100" by (simp add: example_expense_def)
  have "?r = (Inr (equal_rows (split_seq example_db) (example_expense 1) EQUAL
             (context_round (expense_amount (example_expense 1) / of_nat (length (cd_members ?cd))))
             (cd_members ?cd)),
      (delete_splits example_db (example_expense 1))
        \<lparr>expense_splits := expense_splits (delete_splits example_db (example_expense 1))
            @ equal_rows (split_seq example_db) (example_expense 1) EQUAL
                (equal_share (example_expense 1) (length (cd_members ?cd))) (cd_members ?cd),
         split_seq := split_seq example_db + length (cd_members ?cd)\<rparr>)"
    by (rule SimpleSplitForm_save_equal) simp_all
  then have r: "?r = (Inr (equal_rows 7 (example_expense 1) EQUAL
                (3333333333333333333333333333 / 100000000000000000000000000) [1, 2, 3]),
      (delete_splits example_db (example_expense 1))
        \<lparr>expense_splits := expense_splits (delete_splits example_db (example_expense 1))
            @ equal_rows 7 (example_expense 1) EQUAL (3333 / 100) [1, 2, 3],
         split_seq := 10\<rparr>)"
    by (simp only: sel len seq amt equal_share_example context_round_100_3)
  have pk: "expense_pk (example_expense 1) = 1" by (simp add: example_expense_def)
  have "filter (\<lambda>s. split_expense s = expense_pk (example_expense 1)) (expense_splits (snd ?r))
      = equal_rows 7 (example_expense 1) EQUAL (3333 / 100) [1, 2, 3]"
    unfolding r snd_conv by simp
  then have rows: "filter (\<lambda>s. split_expense s = 1) (expense_splits (snd ?r))
      = equal_rows 7 (example_expense 1) EQUAL (3333 / 100) [1, 2, 3]"
    by (simp only: pk)
  have am: "map split_amount (filter (\<lambda>s. split_expense s = 1) (expense_splits (snd ?r)))
      = [3333 / 100, 3333 / 100, 3333 / 100]"
    unfolding rows by (simp add: numeral_3_eq_3)
  have al: "allocated (snd ?r) (example_expense 1) = 9999 / 100"
    unfolding allocated_def pk am by simp
  have ne: "allocated (snd ?r) (example_expense 1) \<noteq> expense_amount (example_expense 1)"
    unfolding al by (simp add: example_expense_def)
  have "fst ?r = Inr (equal_rows 7 (example_expense 1) EQUAL
                (3333333333333333333333333333 / 100000000000000000000000000) [1, 2, 3])"
    unfolding r by (rule fst_conv)
  with money_amount_example [of 1] am al ne show ?thesis by simp
qed

text \<open>
  Claim C1, amended: an EQUAL allocation creates one row per participant, each holding the
  same share (the expense amount divided by the participant count in the decimal context,
  kept at two places by the column); no remainder is distributed, so the rows sum to the
  participant count times that share, and this is the expense amount exactly whenever the
  participant count divides the amount in hundredths.
\<close>

theorem equal_split_allocations:
  assumes "cd_split_type cd = EQUAL" and "cd_members cd \<noteq> []"
  shows "\<exists>splits db'. SimpleSplitForm_save db (Some e) cd = (Inr splits, db')
     \<and> map split_user splits = cd_members cd
     \<and> filter (\<lambda>s. split_expense s = expense_pk e) (expense_splits db')
         = equal_rows (split_seq db) e EQUAL (equal_share e (length (cd_members cd))) (cd_members cd)
     \<and> allocated db' e = of_nat (length (cd_members cd)) * equal_share e (length (cd_members cd))
     \<and> (money_amount (expense_amount e)
          \<and> int (length (cd_members cd)) dvd hundredths (expense_amount e)
          \<longrightarrow> allocated db' e = expense_amount e)"
proof -
  let ?n = "length (cd_members cd)"
  let ?rows = "equal_rows (split_seq db) e EQUAL (equal_share e ?n) (cd_members cd)"
  let ?db' = "(delete_splits db e)\<lparr>expense_splits := expense_splits (delete_splits db e) @ ?rows,
                 split_seq := split_seq db + ?n\<rparr>"
  have n: "0 < ?n" using assms(2) by simp
  have rows: "filter (\<lambda>s. split_expense s = expense_pk e) (expense_splits ?db') = ?rows"
    by simp
  have alloc: "allocated ?db' e = of_nat ?n * equal_share e ?n"
    unfolding allocated_def rows by (simp add: sum_list_replicate_rat)
  have exact: "allocated ?db' e = expense_amount e"
    if "money_amount (expense_amount e) \<and> int ?n dvd hundredths (expense_amount e)"
  proof -
    from that equal_share_exact [OF _ n] have "equal_share e ?n = expense_amount e / of_nat ?n"
      by (simp add: equal_share_def)
    then have "of_nat ?n * equal_share e ?n = expense_amount e"
      using n by simp
    then show ?thesis by (simp only: alloc)
  qed
  from SimpleSplitForm_save_equal [OF assms, of db e] rows alloc exact show ?thesis
    by (intro exI [of _ "equal_rows (split_seq db) e EQUAL
             (context_round (expense_amount e / of_nat ?n)) (cd_members cd)"] exI [of _ ?db'])
       (simp only: equal_rows_user simp_thms, blast)
qed

theorem equal_split_allocations_witness:
  "cd_split_type \<lparr>cd_split_type = EQUAL, cd_members = [1, 2]\<rparr> = EQUAL
   \<and> cd_members \<lparr>cd_split_type = EQUAL, cd_members = [1, 2]\<rparr> \<noteq> []
   \<and> money_amount (expense_amount (example_expense 1))
   \<and> int (length [1::pk, 2]) dvd hundredths (expense_amount (example_expense 1))
   \<and> allocated (snd (SimpleSplitForm_save example_db (Some (example_expense 1))
                       \<lparr>cd_split_type = EQUAL, cd_members = [1, 2]\<rparr>)) (example_expense 1)
       = expense_amount (example_expense 1)"
proof -
  let ?cd = "\<lparr>cd_split_type = EQUAL, cd_members = [1, 2]\<rparr>"
  have a: "cd_split_type ?cd = EQUAL" and b: "cd_members ?cd \<noteq> []" by simp_all
  have m: "money_amount (expense_amount (example_expense 1))" by (rule money_amount_example)
  have d: "int (length (cd_members ?cd)) dvd hundredths (expense_amount (example_expense 1))"
    by (simp add: hundredths_example)
  from equal_split_allocations [OF a b, of example_db "example_expense 1"] m d
  obtain splits db' where
    "SimpleSplitForm_save example_db (Some (example_expense 1)) ?cd = (Inr splits, db')"
    "allocated db' (example_expense 1) = expense_amount (example_expense 1)"
    by blast
  then have "allocated (snd (SimpleSplitForm_save example_db (Some (example_expense 1)) ?cd))
      (example_expense 1) = expense_amount (example_expense 1)"
    by simp
  with a b m d show ?thesis by simp
qed

text \<open>
  Claim C10. For every valid split-form submission whose split type is EXACT, PERCENTAGE
  or SHARES, \<open>SimpleSplitForm.save\<close> returns an empty list and leaves the store with the
  expense's split rows deleted and no row created: the expense has no allocation.
\<close>

theorem non_equal_split_creates_nothing:
  assumes "SimpleSplitForm_full_clean form = Inr cd" and "ssf_expense form = Some e"
    and "cd_split_type cd \<in> {EXACT, PERCENTAGE, SHARES}"
  shows "fst (SimpleSplitForm_save db (ssf_expense form) cd) = Inr []
     \<and> expense_splits (snd (SimpleSplitForm_save db (ssf_expense form) cd))
         = filter (\<lambda>s. split_expense s \<noteq> expense_pk e) (expense_splits db)
     \<and> filter (\<lambda>s. split_expense s = expense_pk e)
          (expense_splits (snd (SimpleSplitForm_save db (ssf_expense form) cd))) = []
     \<and> split_seq (snd (SimpleSplitForm_save db (ssf_expense form) cd)) = split_seq db"
proof -
  from assms(3) have "cd_split_type cd \<noteq> EQUAL" by auto
  from SimpleSplitForm_save_other [OF this, of db e] assms(2) show ?thesis
    by (simp add: delete_splits_def Let_def)
qed

theorem non_equal_split_creates_nothing_witness:
  "SimpleSplitForm_full_clean (example_form ''percentage'' [1, 2])
     = Inr \<lparr>cd_split_type = PERCENTAGE, cd_members = [1, 2]\<rparr>
   \<and> ssf_expense (example_form ''percentage'' [1, 2]) = Some (example_expense 1)
   \<and> fst (SimpleSplitForm_save example_db (ssf_expense (example_form ''percentage'' [1, 2]))
            \<lparr>cd_split_type = PERCENTAGE, cd_members = [1, 2]\<rparr>) = Inr []
   \<and> expense_splits (snd (SimpleSplitForm_save example_db
            (ssf_expense (example_form ''percentage'' [1, 2]))
            \<lparr>cd_split_type = PERCENTAGE, cd_members = [1, 2]\<rparr>))
       = [example_split 4 2 1, example_split 5 2 2, example_split 6 2 3]"
proof -
  let ?form = "example_form ''percentage'' [1, 2]"
  let ?cd = "\<lparr>cd_split_type = PERCENTAGE, cd_members = [1, 2]\<rparr>"
  have e: "ssf_expense ?form = Some (example_expense 1)" by (simp add: example_form_def)
  have t: "cd_split_type ?cd \<in> {EXACT, PERCENTAGE, SHARES}" by simp
  have old: "filter (\<lambda>s. split_expense s \<noteq> expense_pk (example_expense 1)) (expense_splits example_db)
      = [example_split 4 2 1, example_split 5 2 2, example_split 6 2 3]"
    by (simp add: example_db_def example_expense_def example_split_def)
  from non_equal_split_creates_nothing [OF example_form_clean e t, of example_db]
  have "fst (SimpleSplitForm_save example_db (ssf_expense ?form) ?cd) = Inr []"
    and "expense_splits (snd (SimpleSplitForm_save example_db (ssf_expense ?form) ?cd))
       = [example_split 4 2 1, example_split 5 2 2, example_split 6 2 3]"
    by (simp_all only: old)
  with example_form_clean e show ?thesis by blast
qed






section \<open>Properties of the settlement form and view\<close>

lemma SettlementForm_save_tables:
  "expense_splits (snd (SettlementForm_save db form)) = expense_splits db
   \<and> expenses (snd (SettlementForm_save db form)) = expenses db
   \<and> groups (snd (SettlementForm_save db form)) = groups db"
  by (simp add: SettlementForm_save_def Let_def split: option.splits prod.splits)

lemma SettlementCreateView_tables:
  "expense_splits (snd (SettlementCreateView_post db user g post)) = expense_splits db
   \<and> expenses (snd (SettlementCreateView_post db user g post)) = expenses db
   \<and> groups (snd (SettlementCreateView_post db user g post)) = groups db"
  using SettlementForm_save_tables
  by (simp add: SettlementCreateView_post_def Let_def split: option.splits)

lemma SettlementForm_save_Saved:
  assumes "fst (SettlementForm_save db form) = Saved st"
  shows "settlement_expense_splits st = []
     \<and> sp_paid_by (sf_data form) = Some (settlement_paid_by st)
     \<and> sp_paid_to (sf_data form) = Some (settlement_paid_to st)
     \<and> sp_amount (sf_data form) = Some (settlement_amount st)
     \<and> (\<exists>grp. sf_group form = Some grp \<and> settlement_group st = group_pk grp)
     \<and> SettlementForm_errors db form = []"
  using assms
  by (auto simp: SettlementForm_save_def Let_def split: option.splits if_splits)

lemma spec_tables_cong:
  assumes "expense_splits db' = expense_splits db" "expenses db' = expenses db"
  shows "spec_paid db' grp u = spec_paid db grp u"
    and "spec_owed_open db' grp u = spec_owed_open db grp u"
    and "spec_owed db' grp u = spec_owed db grp u"
  using assms
  by (simp_all add: spec_paid_def spec_owed_open_def spec_owed_def split_expense_group_def
      expense_of_def)

lemma calculate_user_balances_cong:
  assumes "expense_splits db' = expense_splits db" "expenses db' = expenses db"
    "groups db' = groups db"
  shows "calculate_user_balances db' u = calculate_user_balances db u"
  using assms spec_tables_cong [OF assms(1,2)]
  by (simp add: calculate_user_balances_def Group_objects_def user_balances_loop_eq
      outstanding_balance_def)



lemma view_found:
  assumes "find (\<lambda>g. group_pk g = gk \<and> user \<in> set (group_members g)) (groups db) = Some grp"
  shows "SettlementCreateView_post db user gk post =
     (let form = \<lparr>sf_data = post, sf_group = Some grp, sf_user = Some user\<rparr>
      in if SettlementForm_errors db form = [] then SettlementForm_save db form
         else (FormInvalid (SettlementForm_errors db form), db))"
  using assms by (simp add: SettlementCreateView_post_def SettlementForm_is_valid_def Let_def)

lemmas settlement_eval_defs =
  SettlementCreateView_post_def SettlementForm_is_valid_def SettlementForm_errors_def
  SettlementForm_queryset_def clean_choice_def clean_amount_def SettlementForm_clean_def
  SettlementForm_save_def example_settlement_post_def example_db_def example_group_def Let_def


lemma example_settlement_saved:
  "fst (SettlementCreateView_post example_db 2 1 (example_settlement_post 2 1 [2, 5]))
     = Saved example_settlement"
  by (simp add: settlement_eval_defs example_settlement_def)

lemma example_owed_open_2: "spec_owed_open example_db example_group 2 = 6666 / 100"
  by (simp add: spec_owed_open_def split_expense_group_def expense_of_def example_db_def
      example_group_def example_expense_def example_split_def)





text \<open>
  Claim C2, as stated: a settlement recorded with a non-empty set of allocation references
  marks each referenced allocation closed, and the outstanding balance then leaves them
  out. It fails on the concrete ledger: the request names the splits 2 and 5, the
  settlement is saved with no reference, both splits stay open, and the outstanding owed
  of user 2 is still 66.66.
\<close>

theorem settlement_refs_counterexample:
  "sp_expense_splits (example_settlement_post 2 1 [2, 5]) = [2, 5]
   \<and> fst (SettlementCreateView_post example_db 2 1 (example_settlement_post 2 1 [2, 5]))
       = Saved example_settlement
   \<and> settlement_expense_splits example_settlement = []
   \<and> expense_splits (snd (SettlementCreateView_post example_db 2 1 (example_settlement_post 2 1 [2, 5])))
       = expense_splits example_db
   \<and> example_split 2 1 2 \<in> set (expense_splits example_db)
   \<and> \<not> split_is_settled (example_split 2 1 2)
   \<and> owed_total_open (snd (SettlementCreateView_post example_db 2 1 (example_settlement_post 2 1 [2, 5])))
        example_group 2 = 6666 / 100"
proof -
  let ?db' = "snd (SettlementCreateView_post example_db 2 1 (example_settlement_post 2 1 [2, 5]))"
  note t = SettlementCreateView_tables [of example_db 2 1 "example_settlement_post 2 1 [2, 5]"]
  have 1: "expense_splits ?db' = expense_splits example_db" using t by simp
  have "owed_total_open ?db' example_group 2 = spec_owed_open example_db example_group 2"
    using t spec_tables_cong(2) [of ?db' example_db example_group 2]
    by (simp add: owed_total_open_spec)
  then have 2: "owed_total_open ?db' example_group 2 = 6666 / 100"
    by (simp only: example_owed_open_2)
  have 3: "sp_expense_splits (example_settlement_post 2 1 [2, 5]) = [2, 5]"
    "settlement_expense_splits example_settlement = []"
    "example_split 2 1 2 \<in> set (expense_splits example_db)"
    "\<not> split_is_settled (example_split 2 1 2)"
    by (simp_all add: example_settlement_post_def example_settlement_def example_db_def
        example_split_def)
  from 1 2 3 example_settlement_saved show ?thesis by blast
qed

text \<open>
  Claim C2, amended: recording a settlement through the settlement view changes no split
  row and stores the settlement with an empty set of allocation references, whatever keys
  the request carries; the outstanding computation leaves out exactly the allocations
  whose \<open>is_settled\<close> flag is already set, so every user's outstanding balances are the same
  before and after.
\<close>

theorem settlement_closes_nothing:
  "expense_splits (snd (SettlementCreateView_post db user gk post)) = expense_splits db
   \<and> (\<forall>st. fst (SettlementCreateView_post db user gk post) = Saved st
         \<longrightarrow> settlement_expense_splits st = [])
   \<and> calculate_user_balances (snd (SettlementCreateView_post db user gk post)) u
       = calculate_user_balances db u
   \<and> owed_total_open (snd (SettlementCreateView_post db user gk post)) grp u
       = spec_owed_open db grp u"
proof (intro conjI allI impI)
  note t = SettlementCreateView_tables [of db user gk post]
  show "expense_splits (snd (SettlementCreateView_post db user gk post)) = expense_splits db"
    using t by simp
  show "calculate_user_balances (snd (SettlementCreateView_post db user gk post)) u
       = calculate_user_balances db u"
    using t by (intro calculate_user_balances_cong) simp_all
  show "owed_total_open (snd (SettlementCreateView_post db user gk post)) grp u
       = spec_owed_open db grp u"
    using t spec_tables_cong(2) [of "snd (SettlementCreateView_post db user gk post)" db grp u]
    by (simp add: owed_total_open_spec)
next
  fix st
  assume saved: "fst (SettlementCreateView_post db user gk post) = Saved st"
  then obtain g where
    g: "find (\<lambda>g. group_pk g = gk \<and> user \<in> set (group_members g)) (groups db) = Some g"
    by (cases "find (\<lambda>g. group_pk g = gk \<and> user \<in> set (group_members g)) (groups db)")
       (auto simp: SettlementCreateView_post_def)
  from saved have "fst (SettlementForm_save db \<lparr>sf_data = post, sf_group = Some g, sf_user = Some user\<rparr>) = Saved st"
    by (auto simp: view_found [OF g] Let_def split: if_splits)
  from SettlementForm_save_Saved [OF this] show "settlement_expense_splits st = []" by simp
qed

theorem settlement_closes_nothing_witness:
  "fst (SettlementCreateView_post example_db 2 1 (example_settlement_post 2 1 [2, 5]))
       = Saved example_settlement
   \<and> settlement_expense_splits example_settlement = []
   \<and> calculate_user_balances
        (snd (SettlementCreateView_post example_db 2 1 (example_settlement_post 2 1 [2, 5]))) 2
       = calculate_user_balances example_db 2"
  using settlement_closes_nothing [of example_db 2 1 "example_settlement_post 2 1 [2, 5]" 2 example_group]
    example_settlement_saved
  by blast

section \<open>Properties of the split formset\<close>

lemma active_data_Cons:
  "active_data (f # forms) =
     (case form_cleaned_data f of None \<Rightarrow> [] | Some cd \<Rightarrow> if fc_DELETE cd then [] else [cd])
     @ active_data forms"
  by (simp add: active_data_def split: option.splits)

lemma clean_loop_percentage:
  "distinct (us @ map fc_user (active_data forms)) \<Longrightarrow>
   clean_loop PERCENTAGE forms (ta, tp, ts, us) =
     Inr (ta, tp + (\<Sum>cd\<leftarrow>active_data forms. case fc_percentage cd of None \<Rightarrow> 0 | Some p \<Rightarrow> p),
          ts, us @ map fc_user (active_data forms))"
proof (induction forms arbitrary: tp us)
  case Nil
  then show ?case by (simp add: active_data_def)
next
  case (Cons f forms)
  show ?case
  proof (cases "form_cleaned_data f")
    case None
    with Cons show ?thesis by (simp add: active_data_Cons)
  next
    case (Some cd)
    show ?thesis
    proof (cases "fc_DELETE cd")
      case True
      with Some Cons show ?thesis by (simp add: active_data_Cons)
    next
      case False
      from Cons.prems Some False have new: "fc_user cd \<notin> set us"
        and d: "distinct ((us @ [fc_user cd]) @ map fc_user (active_data forms))"
        by (auto simp: active_data_Cons)
      from Cons.IH [OF d] Some False new show ?thesis
        by (cases "fc_percentage cd") (simp_all add: active_data_Cons)
    qed
  qed
qed

lemma percentage_request_clean:
  assumes "percentage_request fs"
  shows "ExpenseSplitFormSet_clean fs =
     (if 1 / 100 < \<bar>percentage_sum fs - 100\<bar>
      then Inl (ValidationError (''Percentages must add up to 100%. Current total: ''
                                 @ str_decimal_2 (percentage_sum fs) @ ''%''))
      else Inr ())"
proof -
  from assms have t: "fs_split_type fs = PERCENTAGE" and e: "fs_expense fs \<noteq> None"
    and ok: "\<not> list_ex (\<lambda>errs. errs \<noteq> []) (formset_errors fs)"
    and d: "distinct ([] @ map fc_user (active_data (fs_forms fs)))"
    by (auto simp: percentage_request_def participants_def list_all_iff list_ex_iff)
  from e obtain ex where ex: "fs_expense fs = Some ex" by auto
  show ?thesis
    unfolding ExpenseSplitFormSet_clean_def t clean_loop_percentage [OF d]
    using ok ex by (simp add: percentage_sum_def participants_def Let_def)
qed

lemma example_formset_request: "percentage_request (example_formset p)"
  by (simp add: percentage_request_def participants_def active_data_def formset_errors_def
      should_delete_form_def example_formset_def example_split_form_def)

lemma example_formset_sum: "percentage_sum (example_formset p) = 50 + p"
  by (simp add: percentage_sum_def participants_def active_data_def example_formset_def
      example_split_form_def)

lemma str_nat_small: "n < 10 \<Longrightarrow> str_nat n = [digit_char n]"
  by (simp add: str_nat.simps)

lemma str_nat_step: "\<not> n < 10 \<Longrightarrow> str_nat n = str_nat (n div 10) @ [digit_char (n mod 10)]"
  by (subst str_nat.simps) simp

lemma str_9998: "str_decimal_2 (9998 / 100) = ''99.98''"
  by (simp add: str_decimal_2_def str_nat_small str_nat_step digit_char_def)

lemma str_10002: "str_decimal_2 (10002 / 100) = ''100.02''"
  by (simp add: str_decimal_2_def str_nat_small str_nat_step digit_char_def)

lemma allocate_percentage:
  assumes "SimpleSplitForm_full_clean \<lparr>ssf_data = post, ssf_group = grp, ssf_expense = Some e\<rparr> = Inr cd"
    and "cd_split_type cd = PERCENTAGE"
  shows "allocate db grp e post = (Inr (Inr []), delete_splits db e)"
proof -
  from assms(2) have "cd_split_type cd \<noteq> EQUAL" by simp
  from SimpleSplitForm_save_other [OF this, of db e] assms(1) show ?thesis
    by (simp add: allocate_def Let_def)
qed

lemma example_allocate_percentage:
  "allocate example_db (Some example_group) (example_expense 1) (example_post ''percentage'' [1, 2])
     = (Inr (Inr []), delete_splits example_db (example_expense 1))"
  using allocate_percentage [of "example_post ''percentage'' [1, 2]" "Some example_group"
      "example_expense 1" _ example_db] example_form_clean
  by (simp add: example_form_def)

lemma example_formset_9998:
  "ExpenseSplitFormSet_clean (example_formset (4998 / 100))
     = Inl (ValidationError ''Percentages must add up to 100%. Current total: 99.98%'')"
proof -
  have s: "percentage_sum (example_formset (4998 / 100)) = 9998 / 100"
    by (simp add: example_formset_sum)
  show ?thesis
    using percentage_request_clean [OF example_formset_request [of "4998 / 100"]]
    unfolding s str_9998 by simp
qed

text \<open>
  Claim C7, as stated: a PERCENTAGE allocation request whose percentages sum to more than
  0.01 away from 100.00 is rejected with a \<open>ValidationError\<close> naming the percentage field.
  The error \<open>ExpenseSplitFormSet.clean\<close> raises for a sum of 99.98 is keyed to no field,
  and the allocation the views run (the split form, which reads no percentages) accepts
  a PERCENTAGE request and creates nothing.
\<close>

theorem percentage_field_counterexample:
  "percentage_request (example_formset (4998 / 100))
   \<and> ExpenseSplitFormSet_clean (example_formset (4998 / 100))
       = Inl (ValidationError ''Percentages must add up to 100%. Current total: 99.98%'')
   \<and> error_field (ValidationError ''Percentages must add up to 100%. Current total: 99.98%'')
       = None
   \<and> error_field (ValidationError ''Percentages must add up to 100%. Current total: 99.98%'')
       \<noteq> Some ''percentage''
   \<and> allocate example_db (Some example_group) (example_expense 1)
        (example_post ''percentage'' [1, 2])
       = (Inr (Inr []), delete_splits example_db (example_expense 1))"
  using example_formset_request [of "4998 / 100"] example_formset_9998 example_allocate_percentage
  by (simp add: error_field_def)

text \<open>
  Claim C7, amended: \<open>ExpenseSplitFormSet.clean\<close> refuses a PERCENTAGE formset for an
  expense, with valid forms and no repeated user, exactly when the participants'
  percentages sum to a value more than 0.01 away from 100.00 (so 99.98 and 100.02 are
  refused), and accepts it when the sum is within 0.01 of 100.00. The error is a
  formset-level \<open>ValidationError\<close> keyed to no field, whose message reports the percentage
  total. No view constructs the formset: the allocation step the views run accepts every
  valid PERCENTAGE submission, whatever the percentages, and creates no allocation.
\<close>

theorem percentage_sum_validation:
  assumes "percentage_request fs"
  shows "(1 / 100 < \<bar>percentage_sum fs - 100\<bar>
          \<longrightarrow> ExpenseSplitFormSet_clean fs =
                Inl (ValidationError (''Percentages must add up to 100%. Current total: ''
                                      @ str_decimal_2 (percentage_sum fs) @ ''%'')))
       \<and> (\<bar>percentage_sum fs - 100\<bar> \<le> 1 / 100 \<longrightarrow> ExpenseSplitFormSet_clean fs = Inr ())
       \<and> (\<forall>err. ExpenseSplitFormSet_clean fs = Inl err \<longrightarrow> error_field err = None)
       \<and> (\<forall>cd. SimpleSplitForm_full_clean \<lparr>ssf_data = post, ssf_group = grp, ssf_expense = Some e\<rparr>
                  = Inr cd \<and> cd_split_type cd = PERCENTAGE
              \<longrightarrow> allocate db grp e post = (Inr (Inr []), delete_splits db e))"
proof (intro conjI allI impI)
  note c = percentage_request_clean [OF assms]
  show "ExpenseSplitFormSet_clean fs =
                Inl (ValidationError (''Percentages must add up to 100%. Current total: ''
                                      @ str_decimal_2 (percentage_sum fs) @ ''%''))"
    if "1 / 100 < \<bar>percentage_sum fs - 100\<bar>"
    using c that by simp
  show "ExpenseSplitFormSet_clean fs = Inr ()" if "\<bar>percentage_sum fs - 100\<bar> \<le> 1 / 100"
    using c that by simp
  show "error_field err = None" if "ExpenseSplitFormSet_clean fs = Inl err" for err
    using c that by (auto simp: error_field_def split: if_splits)
  show "allocate db grp e post = (Inr (Inr []), delete_splits db e)"
    if "SimpleSplitForm_full_clean \<lparr>ssf_data = post, ssf_group = grp, ssf_expense = Some e\<rparr>
                  = Inr cd \<and> cd_split_type cd = PERCENTAGE" for cd
    using that allocate_percentage by blast
qed

theorem percentage_sum_validation_witness:
  "percentage_request (example_formset (4998 / 100))
   \<and> ExpenseSplitFormSet_clean (example_formset (4998 / 100))
       = Inl (ValidationError ''Percentages must add up to 100%. Current total: 99.98%'')
   \<and> percentage_request (example_formset (5002 / 100))
   \<and> ExpenseSplitFormSet_clean (example_formset (5002 / 100))
       = Inl (ValidationError ''Percentages must add up to 100%. Current total: 100.02%'')
   \<and> percentage_request (example_formset (5001 / 100))
   \<and> ExpenseSplitFormSet_clean (example_formset (5001 / 100)) = Inr ()
   \<and> SimpleSplitForm_full_clean (example_form ''percentage'' [1, 2])
       = Inr \<lparr>cd_split_type = PERCENTAGE, cd_members = [1, 2]\<rparr>
   \<and> allocate example_db (Some example_group) (example_expense 1)
        (example_post ''percentage'' [1, 2])
       = (Inr (Inr []), delete_splits example_db (example_expense 1))"
proof -
  note r = example_formset_request
  have s1: "percentage_sum (example_formset (4998 / 100)) = 9998 / 100"
    and s2: "percentage_sum (example_formset (5002 / 100)) = 10002 / 100"
    and s3: "percentage_sum (example_formset (5001 / 100)) = 10001 / 100"
    by (simp_all add: example_formset_sum)
  have 1: "ExpenseSplitFormSet_clean (example_formset (4998 / 100))
       = Inl (ValidationError ''Percentages must add up to 100%. Current total: 99.98%'')"
    using percentage_sum_validation [OF r [of "4998 / 100"]] unfolding s1 str_9998 by simp
  have 2: "ExpenseSplitFormSet_clean (example_formset (5002 / 100))
       = Inl (ValidationError ''Percentages must add up to 100%. Current total: 100.02%'')"
    using percentage_sum_validation [OF r [of "5002 / 100"]] unfolding s2 str_10002 by simp
  have 3: "ExpenseSplitFormSet_clean (example_formset (5001 / 100)) = Inr ()"
    using percentage_sum_validation [OF r [of "5001 / 100"]] unfolding s3 by simp
  have f: "SimpleSplitForm_full_clean
             \<lparr>ssf_data = example_post ''percentage'' [1, 2], ssf_group = Some example_group,
              ssf_expense = Some (example_expense 1)\<rparr>
       = Inr \<lparr>cd_split_type = PERCENTAGE, cd_members = [1, 2]\<rparr>"
    using example_form_clean by (simp add: example_form_def)
  have 4: "allocate example_db (Some example_group) (example_expense 1)
        (example_post ''percentage'' [1, 2])
       = (Inr (Inr []), delete_splits example_db (example_expense 1))"
    using percentage_sum_validation [OF r [of "5001 / 100"],
        of "example_post ''percentage'' [1, 2]" "Some example_group" "example_expense 1" example_db] f
    by simp
  from r 1 2 3 4 example_form_clean show ?thesis by blast
qed

section \<open>Properties of the group form\<close>

lemma clean_members_set:
  assumes "clean_members queryset vs = Inr ms"
  shows "set ms = set vs" and "set ms \<subseteq> set queryset"
proof -
  from assms have all: "\<not> list_ex (\<lambda>v. v \<notin> set queryset) vs"
    and ms: "ms = filter (\<lambda>u. u \<in> set vs) queryset"
    by (auto simp: clean_members_def split: if_splits)
  from all have "set vs \<subseteq> set queryset" by (auto simp: list_ex_iff)
  with ms show "set ms = set vs" and "set ms \<subseteq> set queryset" by auto
qed

lemma GroupForm_full_clean_members:
  assumes "GroupForm_full_clean db form = Inr cd"
  shows "clean_members (GroupForm_queryset db form) (gp_members (gf_data form)) = Inr (gcd_members cd)"
  using assms
  by (auto simp: GroupForm_full_clean_def Let_def split: sum.splits if_splits)

lemma GroupForm_queryset_excludes: "u \<notin> set (GroupForm_queryset db \<lparr>gf_data = post, gf_user = Some u, gf_instance = i\<rparr>)"
  by (simp add: GroupForm_queryset_def)

lemma form_saved_members:
  assumes cl: "GroupForm_full_clean db form = Inr cd" and u: "gf_user form = Some u"
    and sv: "fst (GroupForm_save db form cd True) = Saved g"
  shows "group_created_by g = u \<and> u \<in> set (group_members g) \<and> group_members g \<noteq> []
     \<and> set (group_members g) = set (gp_members (gf_data form)) \<union> {u}"
proof -
  from sv u have g: "group_created_by g = u" "group_members g = remdups (gcd_members cd @ [u])"
    by (auto simp: GroupForm_save_def Let_def split: option.splits)
  from clean_members_set(1) [OF GroupForm_full_clean_members [OF cl]]
  have "set (gcd_members cd) = set (gp_members (gf_data form))" .
  with g have s: "set (group_members g) = set (gp_members (gf_data form)) \<union> {u}" by simp
  then have "u \<in> set (group_members g)" by simp
  then have "group_members g \<noteq> []" by auto
  with g s show ?thesis by simp
qed

lemmas group_eval_defs =
  GroupForm_full_clean_def GroupForm_queryset_def GroupForm_save_def clean_members_def
  CURRENCY_CHOICES_def example_group_post_def example_db_def example_group_def Let_def

lemma example_group_created:
  "fst (GroupCreateView_post example_db 1 example_group_post) = Saved example_created_group"
  by (simp add: GroupCreateView_post_def group_eval_defs example_created_group_def)

lemma example_group_updated:
  "fst (GroupUpdateView_post example_db 1 1 example_group_post) = Saved example_updated_group"
  by (simp add: GroupUpdateView_post_def group_eval_defs example_updated_group_def
      example_created_group_def)

text \<open>
  Claim C9. A group saved by the create view or by the update view has the requesting user
  as its creator and among its members, so its member set is not empty: the members are
  the submitted ones together with that user, who is not among the users the \<open>members\<close>
  field offers.
\<close>

theorem group_form_creator_member:
  "(\<forall>g. fst (GroupCreateView_post db user post) = Saved g
       \<longrightarrow> group_created_by g = user \<and> user \<in> set (group_members g) \<and> group_members g \<noteq> []
           \<and> set (group_members g) = set (gp_members post) \<union> {user}
           \<and> g \<in> set (groups (snd (GroupCreateView_post db user post))))
   \<and> (\<forall>g. fst (GroupUpdateView_post db user k post) = Saved g
       \<longrightarrow> group_created_by g = user \<and> user \<in> set (group_members g) \<and> group_members g \<noteq> []
           \<and> set (group_members g) = set (gp_members post) \<union> {user}
           \<and> g \<in> set (groups (snd (GroupUpdateView_post db user k post))))
   \<and> user \<notin> set (GroupForm_queryset db \<lparr>gf_data = post, gf_user = Some user, gf_instance = inst\<rparr>)"
proof (intro conjI allI impI)
  fix g
  let ?form = "\<lparr>gf_data = post, gf_user = Some user, gf_instance = None\<rparr>"
  assume a: "fst (GroupCreateView_post db user post) = Saved g"
  then obtain cd where cl: "GroupForm_full_clean db ?form = Inr cd"
    and sv: "fst (GroupForm_save db ?form cd True) = Saved g"
    and eq: "GroupCreateView_post db user post = GroupForm_save db ?form cd True"
    by (auto simp: GroupCreateView_post_def Let_def split: sum.splits)
  from form_saved_members [OF cl _ sv]
  show "group_created_by g = user" "user \<in> set (group_members g)" "group_members g \<noteq> []"
    "set (group_members g) = set (gp_members post) \<union> {user}"
    by simp_all
  from sv show "g \<in> set (groups (snd (GroupCreateView_post db user post)))"
    unfolding eq by (auto simp: GroupForm_save_def Let_def)
next
  fix g
  assume a: "fst (GroupUpdateView_post db user k post) = Saved g"
  then obtain old where old: "find (\<lambda>g. group_pk g = k \<and> group_created_by g = user \<and> group_is_active g)
             (groups db) = Some old"
    by (cases "find (\<lambda>g. group_pk g = k \<and> group_created_by g = user \<and> group_is_active g) (groups db)")
       (auto simp: GroupUpdateView_post_def)
  let ?form = "\<lparr>gf_data = post, gf_user = Some user, gf_instance = Some old\<rparr>"
  from a old obtain cd where cl: "GroupForm_full_clean db ?form = Inr cd"
    and sv: "fst (GroupForm_save db ?form cd True) = Saved g"
    and eq: "GroupUpdateView_post db user k post = GroupForm_save db ?form cd True"
    by (auto simp: GroupUpdateView_post_def Let_def split: sum.splits)
  from form_saved_members [OF cl _ sv]
  show "group_created_by g = user" "user \<in> set (group_members g)" "group_members g \<noteq> []"
    "set (group_members g) = set (gp_members post) \<union> {user}"
    by simp_all
  from find_Some_mem [OF old] have "old \<in> set (groups db)" by simp
  with sv show "g \<in> set (groups (snd (GroupUpdateView_post db user k post)))"
    unfolding eq by (auto simp: GroupForm_save_def Let_def image_iff intro!: bexI [of _ old])
next
  show "user \<notin> set (GroupForm_queryset db \<lparr>gf_data = post, gf_user = Some user, gf_instance = inst\<rparr>)"
    by (rule GroupForm_queryset_excludes)
qed

theorem group_form_creator_member_witness:
  "fst (GroupCreateView_post example_db 1 example_group_post) = Saved example_created_group
   \<and> group_created_by example_created_group = 1
   \<and> 1 \<in> set (group_members example_created_group)
   \<and> fst (GroupUpdateView_post example_db 1 1 example_group_post) = Saved example_updated_group
   \<and> group_created_by example_updated_group = 1
   \<and> 1 \<in> set (group_members example_updated_group)"
  using group_form_creator_member [of example_db 1 example_group_post 1 None]
    example_group_created example_group_updated
  by blast

end
